theory Spec2Isabelle
  imports Complex_Main "HOL-Library.Sublist" "HOL-Library.Log_Nat" "HOL-Library.AList"
begin

section \<open>Python values used by the evaluation code\<close>

subsection \<open>Strings\<close>

text \<open>
  A Python \<^verbatim>\<open>str\<close> is modelled as a \<^typ>\<open>string\<close>; one \<^typ>\<open>char\<close> is one code
  point, so the model covers the code points 0..255. The character classes below are
  the ones of the Unicode database for that range.
\<close>

text \<open>\<^verbatim>\<open>str.isspace\<close> on one character: what \<^verbatim>\<open>str.strip()\<close> removes.\<close>

definition isspace :: "char \<Rightarrow> bool" where
  "isspace c = (let n = of_char c :: nat in
     (9 \<le> n \<and> n \<le> 13) \<or> (28 \<le> n \<and> n \<le> 32) \<or> n = 133 \<or> n = 160)"

definition lstrip :: "string \<Rightarrow> string" where
  "lstrip s = dropWhile isspace s"

definition rstrip :: "string \<Rightarrow> string" where
  "rstrip s = rev (dropWhile isspace (rev s))"

definition strip :: "string \<Rightarrow> string" where
  "strip s = rstrip (lstrip s)"

text \<open>\<^verbatim>\<open>str.lower\<close>: the upper-case letters of the range move up by 32.\<close>

definition lower_char :: "char \<Rightarrow> char" where
  "lower_char c = (let n = of_char c :: nat in
     if (65 \<le> n \<and> n \<le> 90) \<or> (192 \<le> n \<and> n \<le> 214) \<or> (216 \<le> n \<and> n \<le> 222)
     then char_of (n + 32) else c)"

definition lower :: "string \<Rightarrow> string" where
  "lower s = map lower_char s"

text \<open>\<^verbatim>\<open>sub in s\<close> on strings: \<^verbatim>\<open>sub\<close> occurs in \<^verbatim>\<open>s\<close> as a contiguous run.\<close>

fun str_contains :: "string \<Rightarrow> string \<Rightarrow> bool" where
  "str_contains sub [] = (sub = [])"
| "str_contains sub (c # cs) = (prefix sub (c # cs) \<or> str_contains sub cs)"

text \<open>The regular-expression class \<^verbatim>\<open>\w\<close> on a \<^verbatim>\<open>str\<close> pattern.\<close>

definition is_word :: "char \<Rightarrow> bool" where
  "is_word c = (let n = of_char c :: nat in
     (48 \<le> n \<and> n \<le> 57) \<or> (65 \<le> n \<and> n \<le> 90) \<or> n = 95 \<or> (97 \<le> n \<and> n \<le> 122)
     \<or> n = 170 \<or> n = 178 \<or> n = 179 \<or> n = 181 \<or> n = 185 \<or> n = 186
     \<or> (188 \<le> n \<and> n \<le> 190) \<or> (192 \<le> n \<and> n \<le> 214) \<or> (216 \<le> n \<and> n \<le> 246)
     \<or> 248 \<le> n)"

text \<open>Truthiness of an \<^verbatim>\<open>Optional[str]\<close>: \<^verbatim>\<open>None\<close> and the empty string are false.\<close>

fun truthy :: "string option \<Rightarrow> bool" where
  "truthy None = False"
| "truthy (Some s) = (s \<noteq> [])"

subsection \<open>Floats\<close>

text \<open>
  A Python \<^verbatim>\<open>float\<close> is an IEEE double. A finite double is modelled by the rational
  number it denotes; the two infinities and NaN are separate values.
\<close>

datatype pyfloat = Finite rat | PosInf | NegInf | NaN

text \<open>The comparison \<^verbatim>\<open>a >= b\<close> of two floats; every comparison with NaN is false.\<close>

fun float_ge :: "pyfloat \<Rightarrow> pyfloat \<Rightarrow> bool" where
  "float_ge NaN _ = False"
| "float_ge _ NaN = False"
| "float_ge PosInf _ = True"
| "float_ge _ NegInf = True"
| "float_ge NegInf _ = False"
| "float_ge _ PosInf = False"
| "float_ge (Finite a) (Finite b) = (b \<le> a)"

text \<open>
  The position of the leading binary digit of a positive rational: the integer \<open>k\<close>
  with \<open>2 ^ k \<le> q < 2 ^ (k + 1)\<close>.
\<close>

definition floor_log2 :: "rat \<Rightarrow> int" where
  "floor_log2 q = (if 1 \<le> q then bitlen \<lfloor>q\<rfloor> - 1 else - bitlen (\<lceil>1 / q\<rceil> - 1))"

definition pow2 :: "int \<Rightarrow> rat" where
  "pow2 e = (if 0 \<le> e then 2 ^ nat e else 1 / 2 ^ nat (- e))"

text \<open>Rounding to the nearest integer, a tie going to the even neighbour.\<close>

definition round_half_even :: "rat \<Rightarrow> int" where
  "round_half_even q =
     (let f = \<lfloor>q\<rfloor>; d = q - of_int f
      in if d < 1 / 2 then f else if 1 / 2 < d then f + 1 else if even f then f else f + 1)"

text \<open>
  The double nearest to a rational, a tie going to the even significand: 53 significant
  bits, the smallest exponent that of the subnormal numbers, and an infinity from
  \<open>2 ^ 1024\<close> on.
\<close>

definition float_of_rat :: "rat \<Rightarrow> pyfloat" where
  "float_of_rat q =
     (if q = 0 then Finite 0
      else
        (let a = \<bar>q\<bar>;
             e = max (floor_log2 a - 52) (- 1074);
             v = of_int (round_half_even (a / pow2 e)) * pow2 e
         in if pow2 1024 \<le> v then (if 0 < q then PosInf else NegInf)
            else Finite (if 0 < q then v else - v)))"

fun float_sign :: "pyfloat \<Rightarrow> int" where
  "float_sign (Finite a) = sgn \<lfloor>a\<rfloor> + sgn \<lceil>a\<rceil>"
| "float_sign PosInf = 1"
| "float_sign NegInf = - 1"
| "float_sign NaN = 0"

text \<open>\<^verbatim>\<open>x * y\<close> on floats.\<close>

definition float_mul :: "pyfloat \<Rightarrow> pyfloat \<Rightarrow> pyfloat" where
  "float_mul x y =
     (case (x, y) of
        (Finite a, Finite b) \<Rightarrow> float_of_rat (a * b)
      | _ \<Rightarrow>
          if x = NaN \<or> y = NaN then NaN
          else
            (let s = float_sign x * float_sign y
             in if s = 0 then NaN else if 0 < s then PosInf else NegInf))"

text \<open>
  \<^verbatim>\<open>round(x, ndigits)\<close> on a float for a small non-negative \<^verbatim>\<open>ndigits\<close>: the
  decimal with that many places nearest to the exact value of \<^verbatim>\<open>x\<close>, a tie going to
  the even digit, read back as a double.
\<close>

definition py_round :: "pyfloat \<Rightarrow> nat \<Rightarrow> pyfloat" where
  "py_round x ndigits =
     (case x of
        Finite q \<Rightarrow> float_of_rat (of_int (round_half_even (q * 10 ^ ndigits)) / 10 ^ ndigits)
      | _ \<Rightarrow> x)"

subsection \<open>Integers as text\<close>

text \<open>What an f-string prints for an \<^verbatim>\<open>int\<close>: its decimal digits.\<close>

definition digit_char :: "nat \<Rightarrow> char" where
  "digit_char d = ''0123456789'' ! d"

function str_nat :: "nat \<Rightarrow> string" where
  "str_nat n = (if n < 10 then [digit_char n] else str_nat (n div 10) @ [digit_char (n mod 10)])"
  by pat_completeness auto
termination
  by (relation "measure id") auto

declare str_nat.simps [simp del]

definition str_int :: "int \<Rightarrow> string" where
  "str_int i = (if i < 0 then CHR ''-'' # str_nat (nat (- i)) else str_nat (nat i))"

text \<open>\<^verbatim>\<open>int(s)\<close> on a string of decimal digits.\<close>

definition int_of_digits :: "string \<Rightarrow> int" where
  "int_of_digits s = foldl (\<lambda>a c. 10 * a + (int (of_char c) - 48)) 0 s"

subsection \<open>Exceptions\<close>

text \<open>
  An exception is its class and its message. \<^verbatim>\<open>SubprocessError\<close> stands for the
  class of the standard library and its subclasses, \<^verbatim>\<open>Exception\<close> for any class the
  code does not name.
\<close>

datatype exn =
    ScriptExecutionError string
  | AgentAPIError string
  | JudgeModelError string
  | SubprocessError string
  | TypeError string
  | AttributeError string
  | OSError string
  | ValueError string
  | ZeroDivisionError string
  | OverflowError string
  | Exception string

text \<open>\<^verbatim>\<open>str(e)\<close>, which is also what \<^verbatim>\<open>{e}\<close> prints in an f-string.\<close>

fun exn_str :: "exn \<Rightarrow> string" where
  "exn_str (ScriptExecutionError m) = m"
| "exn_str (AgentAPIError m) = m"
| "exn_str (JudgeModelError m) = m"
| "exn_str (SubprocessError m) = m"
| "exn_str (TypeError m) = m"
| "exn_str (AttributeError m) = m"
| "exn_str (OSError m) = m"
| "exn_str (ValueError m) = m"
| "exn_str (ZeroDivisionError m) = m"
| "exn_str (OverflowError m) = m"
| "exn_str (Exception m) = m"

text \<open>\<^verbatim>\<open>a / b\<close> on two \<^verbatim>\<open>int\<close>s: the double nearest to the quotient.\<close>

definition int_truediv :: "int \<Rightarrow> int \<Rightarrow> exn + pyfloat" where
  "int_truediv a b =
     (if b = 0 then Inl (ZeroDivisionError ''division by zero'')
      else
        (case float_of_rat (of_int a / of_int b) of
           Finite q \<Rightarrow> Inr (Finite q)
         | _ \<Rightarrow> Inl (OverflowError ''integer division result too large for a float'')))"

subsection \<open>What a run leaves behind\<close>

text \<open>
  The calls that leave the process, in the order they are made: a call of
  \<^verbatim>\<open>ScriptRunner.run_script\<close> with its script file, a query of the agent with query,
  provider and model, one completion request to the judge model with model name and
  prompt, and a \<^verbatim>\<open>sleep\<close> with its number of seconds. Logging is not modelled.
\<close>

datatype event =
    RunScript "string option"
  | QueryAgent string string string
  | Completion string string
  | Sleep nat

section \<open>agent\_eval: \<^verbatim>\<open>ScriptRunner.run_script\<close>\<close>

record CompletedProcess =
  returncode :: int
  stdout :: string
  stderr :: string

text \<open>
  What the file system and the operating system do during one call of
  \<^verbatim>\<open>run_script\<close>: the text of a \<^verbatim>\<open>Path\<close> built from a string; what
  \<^verbatim>\<open>exists()\<close> does on the script path and on the kubeconfig path, which answers or
  raises (an \<^verbatim>\<open>OSError\<close> such as a file name that is too long or a directory that
  may not be searched); the exception \<^verbatim>\<open>chmod\<close> raises if it raises one; the
  exception \<^verbatim>\<open>absolute()\<close> raises on the kubeconfig path if it raises one; and
  what \<^verbatim>\<open>subprocess.run\<close> does.
\<close>

record script_world =
  path_str :: "string \<Rightarrow> string"
  script_exists :: "exn + bool"
  chmod_raises :: "exn option"
  kubeconfig_exists :: "exn + bool"
  absolute_raises :: "exn option"
  subprocess_run :: "exn + CompletedProcess"

text \<open>The \<^verbatim>\<open>try\<close> block of \<^verbatim>\<open>run_script\<close>.\<close>

definition run_script_try ::
  "script_world \<Rightarrow> bool \<Rightarrow> string option \<Rightarrow> exn + CompletedProcess" where
  "run_script_try w check_return_code kubeconfig_file =
     (case chmod_raises w of
        Some e \<Rightarrow> Inl e
      | None \<Rightarrow>
          (case (case kubeconfig_file of
                   None \<Rightarrow> None
                 | Some k \<Rightarrow>
                     if k = [] then None
                     else
                       (case kubeconfig_exists w of
                          Inl e \<Rightarrow> Some e
                        | Inr True \<Rightarrow> absolute_raises w
                        | Inr False \<Rightarrow>
                            Some (ScriptExecutionError
                                   (''Kubeconfig file not found: '' @ path_str w k)))) of
             Some e \<Rightarrow> Inl e
           | None \<Rightarrow>
               (case subprocess_run w of
                  Inl e \<Rightarrow> Inl e
                | Inr result \<Rightarrow>
                    if check_return_code \<and> returncode result \<noteq> 0
                    then Inl (ScriptExecutionError
                               (''Script failed with return code '' @ str_int (returncode result)
                                @ '': '' @ stderr result))
                    else Inr result)))"

text \<open>
  \<^verbatim>\<open>Path(None)\<close> raises a \<^verbatim>\<open>TypeError\<close> before the existence check. The
  existence check of the script stands in front of the \<^verbatim>\<open>try\<close> block, so an
  exception it raises leaves \<^verbatim>\<open>run_script\<close> as it is. The two handlers turn every
  exception of the \<^verbatim>\<open>try\<close> block, also the \<^verbatim>\<open>ScriptExecutionError\<close>s raised
  inside it, into a \<^verbatim>\<open>ScriptExecutionError\<close>.
\<close>

definition run_script ::
  "script_world \<Rightarrow> string option \<Rightarrow> bool \<Rightarrow> string option \<Rightarrow> exn + CompletedProcess" where
  "run_script w script_file check_return_code kubeconfig_file =
     (case script_file of
        None \<Rightarrow> Inl (TypeError ''expected str, bytes or os.PathLike object, not NoneType'')
      | Some f \<Rightarrow>
          (let script_path = path_str w f in
           case script_exists w of
             Inl e \<Rightarrow> Inl e
           | Inr False \<Rightarrow> Inl (ScriptExecutionError (''Script not found: '' @ script_path))
           | Inr True \<Rightarrow>
               (case run_script_try w check_return_code kubeconfig_file of
                  Inr result \<Rightarrow> Inr result
                | Inl (SubprocessError m) \<Rightarrow>
                    Inl (ScriptExecutionError
                          (''Error running script '' @ script_path @ '': '' @ m))
                | Inl e \<Rightarrow>
                    Inl (ScriptExecutionError
                          (''Unexpected error running script '' @ script_path @ '': ''
                           @ exn_str e)))))"

section \<open>agent\_eval: \<^verbatim>\<open>AgentHttpClient.query_agent\<close>\<close>

text \<open>
  What the HTTP POST does: it times out, answers with an error status (code and text),
  raises something else, or answers with a JSON body, of which the model keeps the
  \<^verbatim>\<open>response\<close> field when the body has one. A field that is not text makes
  \<^verbatim>\<open>strip\<close> raise, which is the case \<open>PostRaises\<close>.
\<close>

datatype post_outcome =
    PostTimeout
  | PostStatusError nat string
  | PostRaises exn
  | PostJson "string option"

definition query_agent :: "post_outcome \<Rightarrow> exn + string" where
  "query_agent reply =
     (case reply of
        PostTimeout \<Rightarrow>
          Inl (AgentAPIError (''Agent query timeout after '' @ str_nat 300 @ '' seconds''))
      | PostStatusError code txt \<Rightarrow>
          Inl (AgentAPIError (''Agent API error: '' @ str_nat code @ '' - '' @ txt))
      | PostRaises e \<Rightarrow>
          Inl (AgentAPIError (''Unexpected error querying agent: '' @ exn_str e))
      | PostJson None \<Rightarrow>
          Inl (AgentAPIError
                (''Unexpected error querying agent: Agent response missing ''
                 @ [CHR 0x27] @ ''response'' @ [CHR 0x27] @ '' field''))
      | PostJson (Some r) \<Rightarrow> Inr (strip r))"

section \<open>agent\_eval: \<^verbatim>\<open>JudgeModelManager.evaluate_response\<close>\<close>

definition MAX_RETRY_ATTEMPTS :: nat where
  "MAX_RETRY_ATTEMPTS = 3"

definition TIME_TO_BREATH :: nat where
  "TIME_TO_BREATH = 2"

record JudgeModelManager =
  judge_provider :: string
  judge_model :: string
  model_name :: string

text \<open>
  One attempt: \<^verbatim>\<open>litellm.completion\<close> raises, or returns a message whose content
  is text or \<^verbatim>\<open>None\<close>; \<^verbatim>\<open>.strip()\<close> on \<^verbatim>\<open>None\<close> raises inside the same
  \<^verbatim>\<open>try\<close>.
\<close>

definition judge_attempt :: "exn + string option \<Rightarrow> exn + string" where
  "judge_attempt reply =
     (case reply of
        Inl e \<Rightarrow> Inl e
      | Inr None \<Rightarrow>
          Inl (AttributeError ([CHR 0x27] @ ''NoneType'' @ [CHR 0x27]
                 @ '' object has no attribute '' @ [CHR 0x27] @ ''strip'' @ [CHR 0x27]))
      | Inr (Some content) \<Rightarrow> Inr (strip content))"

text \<open>
  The \<^verbatim>\<open>for retry_counter in range(MAX_RETRY_ATTEMPTS)\<close> loop over the remaining
  counters. \<open>backend n\<close> is what the n-th completion request of this call does.
\<close>

fun evaluate_response_loop ::
  "string \<Rightarrow> string \<Rightarrow> (nat \<Rightarrow> exn + string option) \<Rightarrow> nat list
   \<Rightarrow> (exn + string option) \<times> event list" where
  "evaluate_response_loop model prompt backend [] = (Inr None, [])"
| "evaluate_response_loop model prompt backend (retry_counter # rest) =
     (case judge_attempt (backend retry_counter) of
        Inr judge_response \<Rightarrow> (Inr (Some judge_response), [Completion model prompt])
      | Inl e \<Rightarrow>
          if retry_counter = MAX_RETRY_ATTEMPTS - 1
          then (Inl (JudgeModelError
                      (''Judge model evaluation failed after '' @ str_nat MAX_RETRY_ATTEMPTS
                       @ '' attempts: '' @ exn_str e)),
                [Completion model prompt])
          else
            (let (r, evs) = evaluate_response_loop model prompt backend rest
             in (r, Completion model prompt # Sleep TIME_TO_BREATH # evs)))"

definition evaluate_response ::
  "JudgeModelManager \<Rightarrow> (nat \<Rightarrow> exn + string option) \<Rightarrow> string
   \<Rightarrow> (exn + string option) \<times> event list" where
  "evaluate_response self backend prompt =
     evaluate_response_loop (model_name self) prompt backend [0..<MAX_RETRY_ATTEMPTS]"

section \<open>agent\_eval: the data classes\<close>

record EvaluationResult =
  eval_id :: string
  query :: string
  response :: string
  eval_type :: string
  result :: string
  error :: "string option"

record EvaluationDataConfig =
  eval_id :: string
  eval_query :: string
  eval_type :: string
  expected_response :: "string option"
  expected_key_words :: "string list option"
  eval_setup_script :: "string option"
  eval_verify_script :: "string option"
  eval_cleanup_script :: "string option"

section \<open>agent\_eval: \<^verbatim>\<open>EvaluationRunner\<close>\<close>

text \<open>
  The runner's fields. The agent client is the function \<open>agent_post\<close> of the world
  below.
\<close>

record EvaluationRunner =
  judge_manager :: "JudgeModelManager option"
  kubeconfig :: "string option"

text \<open>
  Everything outside the process during one call of \<^verbatim>\<open>run_evaluation\<close>: what
  the setup, verify and cleanup runs of \<^verbatim>\<open>run_script\<close> meet, what the agent's
  endpoint does with a query, provider and model, what the judge model does with a
  model name and a prompt at the n-th request, and the prompt template
  \<^verbatim>\<open>ANSWER_CORRECTNESS_PROMPT\<close> filled with question, answer and response.
\<close>

record world =
  setup_world :: script_world
  verify_world :: script_world
  cleanup_world :: script_world
  agent_post :: "string \<Rightarrow> string \<Rightarrow> string \<Rightarrow> post_outcome"
  completion :: "string \<Rightarrow> string \<Rightarrow> nat \<Rightarrow> exn + string option"
  prompt_format :: "string \<Rightarrow> string \<Rightarrow> string \<Rightarrow> string"

definition evaluate_script ::
  "EvaluationRunner \<Rightarrow> world \<Rightarrow> EvaluationDataConfig \<Rightarrow> (exn + bool) \<times> event list" where
  "evaluate_script self w data_config =
     (case run_script (verify_world w) (eval_verify_script data_config) False (kubeconfig self) of
        Inr r \<Rightarrow> (Inr (returncode r = 0), [RunScript (eval_verify_script data_config)])
      | Inl (ScriptExecutionError m) \<Rightarrow> (Inr False, [RunScript (eval_verify_script data_config)])
      | Inl e \<Rightarrow> (Inl e, [RunScript (eval_verify_script data_config)]))"

text \<open>The \<^verbatim>\<open>for keyword in ...\<close> loop of \<^verbatim>\<open>_evaluate_substring\<close>.\<close>

fun keyword_loop :: "string \<Rightarrow> string list \<Rightarrow> bool" where
  "keyword_loop response_lower [] = False"
| "keyword_loop response_lower (keyword # rest) =
     (if str_contains (lower keyword) response_lower then True
      else keyword_loop response_lower rest)"

definition evaluate_substring :: "EvaluationDataConfig \<Rightarrow> string \<Rightarrow> bool" where
  "evaluate_substring data_config resp =
     (case expected_key_words data_config of
        None \<Rightarrow> False
      | Some kws \<Rightarrow> if kws = [] then False else keyword_loop (lower resp) kws)"

text \<open>
  The assertion \<^verbatim>\<open>\b\<close> between two neighbours; the start and the end of the text
  count as a non-word character.
\<close>

fun opt_is_word :: "char option \<Rightarrow> bool" where
  "opt_is_word None = False"
| "opt_is_word (Some c) = is_word c"

definition word_boundary :: "char option \<Rightarrow> char option \<Rightarrow> bool" where
  "word_boundary left right = (opt_is_word left \<noteq> opt_is_word right)"

text \<open>
  \<^verbatim>\<open>re.findall(r"\b[01]\b", s)\<close>, scanning from the left; \<open>prev\<close> is the
  character in front of the current position.
\<close>

fun findall_b01b :: "char option \<Rightarrow> string \<Rightarrow> string list" where
  "findall_b01b prev [] = []"
| "findall_b01b prev (c # cs) =
     (if word_boundary prev (Some c) \<and> (c = CHR ''0'' \<or> c = CHR ''1'')
         \<and> word_boundary (Some c) (case cs of [] \<Rightarrow> None | d # _ \<Rightarrow> Some d)
      then [c] # findall_b01b (Some c) cs
      else findall_b01b (Some c) cs)"

definition extract_numeric_result :: "string \<Rightarrow> int" where
  "extract_numeric_result resp =
     (let resp' = strip resp in
      if resp' = ''1'' then 1
      else if resp' = ''0'' then 0
      else
        (case findall_b01b None resp' of
           n # _ \<Rightarrow> int_of_digits n
         | [] \<Rightarrow> 0))"

definition evaluate_judge_llm ::
  "EvaluationRunner \<Rightarrow> world \<Rightarrow> EvaluationDataConfig \<Rightarrow> string \<Rightarrow> (exn + bool) \<times> event list"
  where
  "evaluate_judge_llm self w data_config resp =
     (case judge_manager self of
        None \<Rightarrow> (Inr False, [])
      | Some jm \<Rightarrow>
          (case expected_response data_config of
             None \<Rightarrow> (Inr False, [])
           | Some answer \<Rightarrow>
               if answer = [] then (Inr False, [])
               else
                 (let prompt = prompt_format w (eval_query data_config) answer resp;
                      (r, evs) = evaluate_response jm (completion w (model_name jm) prompt) prompt
                  in case r of
                       Inl e \<Rightarrow> (Inr False, evs)
                     | Inr None \<Rightarrow> (Inr False, evs)
                     | Inr (Some judge_resp) \<Rightarrow>
                         (Inr (extract_numeric_result judge_resp = 1), evs))))"

text \<open>\<^verbatim>\<open>_evaluate_response\<close> of the runner: the dispatch on \<^verbatim>\<open>eval_type\<close>.\<close>

definition runner_evaluate_response ::
  "EvaluationRunner \<Rightarrow> world \<Rightarrow> EvaluationDataConfig \<Rightarrow> string \<Rightarrow> (exn + bool) \<times> event list"
  where
  "runner_evaluate_response self w data_config resp =
     (if EvaluationDataConfig.eval_type data_config = ''script''
      then evaluate_script self w data_config
      else if EvaluationDataConfig.eval_type data_config = ''sub-string''
      then (Inr (evaluate_substring data_config resp), [])
      else if EvaluationDataConfig.eval_type data_config = ''judge-llm''
      then evaluate_judge_llm self w data_config resp
      else (Inr False, []))"

text \<open>The result both \<^verbatim>\<open>return\<close>s with \<^verbatim>\<open>result="FAILED"\<close> build.\<close>

definition failed_result :: "EvaluationDataConfig \<Rightarrow> string \<Rightarrow> EvaluationResult" where
  "failed_result data_config msg =
     \<lparr>EvaluationResult.eval_id = EvaluationDataConfig.eval_id data_config,
      query = eval_query data_config,
      response = [],
      eval_type = EvaluationDataConfig.eval_type data_config,
      result = ''FAILED'',
      error = Some msg\<rparr>"

text \<open>The result the last \<^verbatim>\<open>return\<close> builds from the agent's response and the verdict.\<close>

definition verdict_result :: "EvaluationDataConfig \<Rightarrow> string \<Rightarrow> bool \<Rightarrow> EvaluationResult" where
  "verdict_result data_config resp success =
     \<lparr>EvaluationResult.eval_id = EvaluationDataConfig.eval_id data_config,
      query = eval_query data_config,
      response = resp,
      eval_type = EvaluationDataConfig.eval_type data_config,
      result = (if success then ''PASS'' else ''FAIL''),
      error = None\<rparr>"

text \<open>
  The setup step: a \<^verbatim>\<open>ScriptExecutionError\<close> returns the \<^verbatim>\<open>FAILED\<close> result at
  once (\<open>Inr (Some res)\<close>), any other exception leaves the step, and otherwise the
  evaluation goes on (\<open>Inr None\<close>).
\<close>

definition run_setup ::
  "EvaluationRunner \<Rightarrow> world \<Rightarrow> EvaluationDataConfig
   \<Rightarrow> (exn + EvaluationResult option) \<times> event list" where
  "run_setup self w data_config =
     (if truthy (eval_setup_script data_config)
      then
        (case run_script (setup_world w) (eval_setup_script data_config) True (kubeconfig self) of
           Inl (ScriptExecutionError m) \<Rightarrow>
             (Inr (Some (failed_result data_config (''Setup script failed: '' @ m))),
              [RunScript (eval_setup_script data_config)])
         | Inl e \<Rightarrow> (Inl e, [RunScript (eval_setup_script data_config)])
         | Inr r \<Rightarrow> (Inr None, [RunScript (eval_setup_script data_config)]))
      else (Inr None, []))"

text \<open>
  The cleanup step: a \<^verbatim>\<open>ScriptExecutionError\<close> is logged and dropped, any other
  exception (the one the existence check of the script raises) leaves the step.
\<close>

definition run_cleanup ::
  "EvaluationRunner \<Rightarrow> world \<Rightarrow> EvaluationDataConfig \<Rightarrow> exn option \<times> event list" where
  "run_cleanup self w data_config =
     (if truthy (eval_cleanup_script data_config)
      then
        (case run_script (cleanup_world w) (eval_cleanup_script data_config) True (kubeconfig self) of
           Inr r \<Rightarrow> (None, [RunScript (eval_cleanup_script data_config)])
         | Inl (ScriptExecutionError m) \<Rightarrow> (None, [RunScript (eval_cleanup_script data_config)])
         | Inl e \<Rightarrow> (Some e, [RunScript (eval_cleanup_script data_config)]))
      else (None, []))"

text \<open>
  The \<^verbatim>\<open>try\<close> block of \<^verbatim>\<open>run_evaluation\<close> from the agent query on: query,
  evaluation, cleanup, result.
\<close>

definition query_and_evaluate ::
  "EvaluationRunner \<Rightarrow> world \<Rightarrow> EvaluationDataConfig \<Rightarrow> string \<Rightarrow> string
   \<Rightarrow> (exn + EvaluationResult) \<times> event list" where
  "query_and_evaluate self w data_config agent_provider agent_model =
     (let q = QueryAgent (eval_query data_config) agent_provider agent_model in
      case query_agent (agent_post w (eval_query data_config) agent_provider agent_model) of
        Inl e \<Rightarrow> (Inl e, [q])
      | Inr resp \<Rightarrow>
          (case runner_evaluate_response self w data_config resp of
             (Inl e, evs) \<Rightarrow> (Inl e, q # evs)
           | (Inr success, evs) \<Rightarrow>
               (case run_cleanup self w data_config of
                  (Some e, cevs) \<Rightarrow> (Inl e, q # evs @ cevs)
                | (None, cevs) \<Rightarrow>
                    (Inr (verdict_result data_config resp success), q # evs @ cevs))))"

text \<open>The whole \<^verbatim>\<open>try\<close> block: the setup step, then the rest.\<close>

definition run_evaluation_try ::
  "EvaluationRunner \<Rightarrow> world \<Rightarrow> EvaluationDataConfig \<Rightarrow> string \<Rightarrow> string
   \<Rightarrow> (exn + EvaluationResult) \<times> event list" where
  "run_evaluation_try self w data_config agent_provider agent_model =
     (case run_setup self w data_config of
        (Inl e, sevs) \<Rightarrow> (Inl e, sevs)
      | (Inr (Some res), sevs) \<Rightarrow> (Inr res, sevs)
      | (Inr None, sevs) \<Rightarrow>
          (let (res, evs) = query_and_evaluate self w data_config agent_provider agent_model
           in (res, sevs @ evs)))"

definition run_evaluation ::
  "EvaluationRunner \<Rightarrow> world \<Rightarrow> EvaluationDataConfig \<Rightarrow> string \<Rightarrow> string
   \<Rightarrow> EvaluationResult \<times> event list" where
  "run_evaluation self w data_config agent_provider agent_model =
     (case run_evaluation_try self w data_config agent_provider agent_model of
        (Inr res, evs) \<Rightarrow> (res, evs)
      | (Inl e, evs) \<Rightarrow> (failed_result data_config (exn_str e), evs))"

section \<open>lsc\_agent\_eval: the validated result model\<close>

definition VALID_EVAL_TYPES :: "string list" where
  "VALID_EVAL_TYPES = [''judge-llm'', ''script'', ''sub-string'']"

definition VALID_EVAL_RESULTS :: "string list" where
  "VALID_EVAL_RESULTS = [''PASS'', ''FAIL'', ''ERROR'']"

text \<open>\<^verbatim>\<open>repr\<close> of a list of strings that hold no quote and no backslash.\<close>

definition repr_list :: "string list \<Rightarrow> string" where
  "repr_list xs =
     ''['' @ concat (map (\<lambda>(i, x). (if i = 0 then [] else '', '') @ [CHR 0x27] @ x @ [CHR 0x27])
                        (zip [0..<length xs] xs)) @ '']''"

definition validate_eval_type :: "string \<Rightarrow> exn + string" where
  "validate_eval_type eval_type' =
     (if eval_type' \<notin> set VALID_EVAL_TYPES
      then Inl (ValueError (''eval_type must be one of '' @ repr_list VALID_EVAL_TYPES
                            @ '', got '' @ [CHR 0x27] @ eval_type' @ [CHR 0x27]))
      else Inr eval_type')"

definition validate_result :: "string \<Rightarrow> exn + string" where
  "validate_result v =
     (if v \<notin> set VALID_EVAL_RESULTS
      then Inl (ValueError (''Result must be one of '' @ repr_list VALID_EVAL_RESULTS
                            @ '', got '' @ [CHR 0x27] @ v @ [CHR 0x27]))
      else Inr v)"

record Lsc_EvaluationResult =
  eval_id :: string
  query :: string
  response :: string
  eval_type :: string
  result :: string
  conversation_group :: "string option"
  conversation_uuid :: "string option"
  error :: "string option"

text \<open>
  The errors of one field are the field's name with a message. \<open>min_length_1\<close> is
  the constraint \<^verbatim>\<open>Field(..., min_length=1)\<close>, \<open>field_validator\<close> runs a validator
  function of the class on the field's value.
\<close>

definition min_length_1 :: "string \<Rightarrow> string \<Rightarrow> (string \<times> string) list" where
  "min_length_1 field v =
     (if length v < 1 then [(field, ''String should have at least 1 character'')] else [])"

definition field_validator :: "string \<Rightarrow> (string \<Rightarrow> exn + string) \<Rightarrow> string \<Rightarrow> (string \<times> string) list"
  where
  "field_validator field f v =
     (case f v of Inl e \<Rightarrow> [(field, ''Value error, '' @ exn_str e)] | Inr _ \<Rightarrow> [])"

text \<open>
  Constructing an \<^verbatim>\<open>EvaluationResult\<close> of the validated model: every field is
  checked, in the order of the class, and the construction raises a validation error
  with all the failures, or returns the object.
\<close>

definition new_EvaluationResult ::
  "string \<Rightarrow> string \<Rightarrow> string \<Rightarrow> string \<Rightarrow> string \<Rightarrow> string option \<Rightarrow> string option
   \<Rightarrow> string option \<Rightarrow> (string \<times> string) list + Lsc_EvaluationResult" where
  "new_EvaluationResult eval_id' query' response' eval_type' result' conversation_group'
     conversation_uuid' error' =
     (let errors = min_length_1 ''eval_id'' eval_id'
                   @ min_length_1 ''query'' query'
                   @ field_validator ''eval_type'' validate_eval_type eval_type'
                   @ field_validator ''result'' validate_result result'
      in if errors \<noteq> [] then Inl errors
         else Inr \<lparr>Lsc_EvaluationResult.eval_id = eval_id',
                   query = query',
                   response = response',
                   eval_type = eval_type',
                   result = result',
                   conversation_group = conversation_group',
                   conversation_uuid = conversation_uuid',
                   error = error'\<rparr>)"

section \<open>lsc\_agent\_eval: \<^verbatim>\<open>_calculate_stats_by_category\<close>\<close>

text \<open>
  The inner dictionary has the keys \<^verbatim>\<open>passed\<close>, \<^verbatim>\<open>failed\<close> and \<^verbatim>\<open>errored\<close>
  after the first loop; the second loop adds \<^verbatim>\<open>total\<close> and \<^verbatim>\<open>success_rate\<close>.
  The outer dictionary keeps its keys in insertion order: an association list.
\<close>

record category_counts =
  passed :: int
  failed :: int
  errored :: int

record category_stats = category_counts +
  total :: int
  success_rate :: pyfloat

text \<open>The \<^verbatim>\<open>if\<close>/\<^verbatim>\<open>elif\<close> chain on \<^verbatim>\<open>result.result\<close>.\<close>

definition count_result :: "string \<Rightarrow> category_counts \<Rightarrow> category_counts" where
  "count_result res c =
     (if res = ''PASS'' then c\<lparr>passed := passed c + 1\<rparr>
      else if res = ''FAIL'' then c\<lparr>failed := failed c + 1\<rparr>
      else if res = ''ERROR'' then c\<lparr>errored := errored c + 1\<rparr>
      else c)"

text \<open>The first loop, over the results that are left.\<close>

fun count_loop ::
  "(Lsc_EvaluationResult \<Rightarrow> string) \<Rightarrow> Lsc_EvaluationResult list
   \<Rightarrow> (string \<times> category_counts) list \<Rightarrow> (string \<times> category_counts) list" where
  "count_loop key_extractor [] category_stats = category_stats"
| "count_loop key_extractor (r # rs) category_stats =
     (let category = key_extractor r;
          stats1 = (if map_of category_stats category = None
                    then AList.update category \<lparr>passed = 0, failed = 0, errored = 0\<rparr> category_stats
                    else category_stats);
          stats2 = (case map_of stats1 category of
                      None \<Rightarrow> stats1
                    | Some c \<Rightarrow> AList.update category (count_result (Lsc_EvaluationResult.result r) c) stats1)
      in count_loop key_extractor rs stats2)"

text \<open>The body of the second loop, on one inner dictionary.\<close>

definition add_success_rate :: "category_counts \<Rightarrow> exn + category_stats" where
  "add_success_rate stats =
     (let t = passed stats + failed stats + errored stats
      in if 0 < t
         then
           (case int_truediv (passed stats) t of
              Inl e \<Rightarrow> Inl e
            | Inr q \<Rightarrow>
                Inr \<lparr>passed = passed stats, failed = failed stats, errored = errored stats,
                     total = t, success_rate = py_round (float_mul q (Finite 100)) 2\<rparr>)
         else
           Inr \<lparr>passed = passed stats, failed = failed stats, errored = errored stats,
                total = t, success_rate = Finite 0\<rparr>)"

fun rate_loop :: "(string \<times> category_counts) list \<Rightarrow> exn + (string \<times> category_stats) list" where
  "rate_loop [] = Inr []"
| "rate_loop ((category, stats) # rest) =
     (case add_success_rate stats of
        Inl e \<Rightarrow> Inl e
      | Inr st \<Rightarrow>
          (case rate_loop rest of
             Inl e \<Rightarrow> Inl e
           | Inr sts \<Rightarrow> Inr ((category, st) # sts)))"

definition calculate_stats_by_category ::
  "Lsc_EvaluationResult list \<Rightarrow> (Lsc_EvaluationResult \<Rightarrow> string)
   \<Rightarrow> exn + (string \<times> category_stats) list" where
  "calculate_stats_by_category results key_extractor =
     rate_loop (count_loop key_extractor results [])"

section \<open>lightspeed\_evaluation: \<^verbatim>\<open>MetricsEvaluator._determine_status\<close>\<close>

definition determine_status :: "pyfloat \<Rightarrow> pyfloat option \<Rightarrow> string" where
  "determine_status score threshold =
     (let threshold' = (case threshold of None \<Rightarrow> Finite (1 / 2) | Some t \<Rightarrow> t)
      in if float_ge score threshold' then ''PASS'' else ''FAIL'')"

section \<open>Fixtures\<close>

text \<open>
  Concrete inputs for the closed instances below, after the fixtures of the repository's
  tests: a script that exists and exits with a given code, a script file that is
  missing, a script path whose name is too long for the file system, a world whose
  agent answers with a given text and whose judge model answers 1, a runner without
  judge manager, and one configuration per evaluation type.
\<close>

definition script_exits :: "int \<Rightarrow> script_world" where
  "script_exits code =
     \<lparr>path_str = (\<lambda>p. p), script_exists = Inr True, chmod_raises = None,
      kubeconfig_exists = Inr True, absolute_raises = None,
      subprocess_run = Inr \<lparr>returncode = code, stdout = [], stderr = []\<rparr>\<rparr>"

definition script_missing :: script_world where
  "script_missing =
     \<lparr>path_str = (\<lambda>p. p), script_exists = Inr False, chmod_raises = None,
      kubeconfig_exists = Inr True, absolute_raises = None,
      subprocess_run = Inr \<lparr>returncode = 0, stdout = [], stderr = []\<rparr>\<rparr>"

text \<open>
  A path of 300 letters: \<^verbatim>\<open>exists()\<close> raises the \<^verbatim>\<open>OSError\<close> of errno 36 on
  it, with the text Python gives that error.
\<close>

definition long_name :: string where
  "long_name = replicate 300 (CHR ''a'')"

definition name_too_long :: string where
  "name_too_long = ''[Errno 36] File name too long: '' @ [CHR 0x27] @ long_name @ [CHR 0x27]"

definition script_name_too_long :: script_world where
  "script_name_too_long =
     \<lparr>path_str = (\<lambda>p. p), script_exists = Inl (OSError name_too_long), chmod_raises = None,
      kubeconfig_exists = Inr True, absolute_raises = None,
      subprocess_run = Inr \<lparr>returncode = 0, stdout = [], stderr = []\<rparr>\<rparr>"

definition mock_world :: "script_world \<Rightarrow> script_world \<Rightarrow> script_world \<Rightarrow> string \<Rightarrow> world" where
  "mock_world setup verify cleanup agent_text =
     \<lparr>setup_world = setup, verify_world = verify, cleanup_world = cleanup,
      agent_post = (\<lambda>q p m. PostJson (Some agent_text)),
      completion = (\<lambda>model prompt n. Inr (Some ''1'')),
      prompt_format = (\<lambda>question answer resp. question @ answer @ resp)\<rparr>"

definition runner_without_judge :: EvaluationRunner where
  "runner_without_judge = \<lparr>judge_manager = None, kubeconfig = None\<rparr>"

definition sample_config_judge_llm :: EvaluationDataConfig where
  "sample_config_judge_llm =
     \<lparr>EvaluationDataConfig.eval_id = ''test_001'',
      eval_query = ''What is Openshift Virtualization?'',
      eval_type = ''judge-llm'',
      expected_response = Some ''OpenShift Virtualization is an extension of the OpenShift Container Platform'',
      expected_key_words = None,
      eval_setup_script = None,
      eval_verify_script = None,
      eval_cleanup_script = None\<rparr>"

definition sample_config_script :: EvaluationDataConfig where
  "sample_config_script =
     \<lparr>EvaluationDataConfig.eval_id = ''test_002'',
      eval_query = ''Deploy nginx'',
      eval_type = ''script'',
      expected_response = None,
      expected_key_words = None,
      eval_setup_script = None,
      eval_verify_script = Some ''verify.sh'',
      eval_cleanup_script = None\<rparr>"

definition sample_config_substring :: EvaluationDataConfig where
  "sample_config_substring =
     \<lparr>EvaluationDataConfig.eval_id = ''test_003'',
      eval_query = ''What is Podman?'',
      eval_type = ''sub-string'',
      expected_response = None,
      expected_key_words = Some [''container'', ''Podman''],
      eval_setup_script = None,
      eval_verify_script = None,
      eval_cleanup_script = None\<rparr>"

text \<open>The sub-string configuration with a setup script.\<close>

definition sample_config_with_setup :: EvaluationDataConfig where
  "sample_config_with_setup = sample_config_substring\<lparr>eval_setup_script := Some ''setup.sh''\<rparr>"

text \<open>The sub-string configuration with a setup or a cleanup script of that long name.\<close>

definition sample_config_long_setup :: EvaluationDataConfig where
  "sample_config_long_setup = sample_config_substring\<lparr>eval_setup_script := Some long_name\<rparr>"

definition sample_config_long_cleanup :: EvaluationDataConfig where
  "sample_config_long_cleanup = sample_config_substring\<lparr>eval_cleanup_script := Some long_name\<rparr>"

text \<open>Three results of the validated model: two script evaluations and one judge-llm.\<close>

definition sample_results :: "Lsc_EvaluationResult list" where
  "sample_results =
     [\<lparr>Lsc_EvaluationResult.eval_id = ''test_002'', query = ''Deploy nginx'',
       response = ''nginx is deployed'', eval_type = ''script'', result = ''PASS'',
       conversation_group = Some ''conv1'', conversation_uuid = None, error = None\<rparr>,
      \<lparr>Lsc_EvaluationResult.eval_id = ''test_001'', query = ''What is Openshift Virtualization?'',
       response = ''It extends OpenShift'', eval_type = ''judge-llm'', result = ''FAIL'',
       conversation_group = Some ''conv1'', conversation_uuid = None, error = None\<rparr>,
      \<lparr>Lsc_EvaluationResult.eval_id = ''test_004'', query = ''Scale nginx'',
       response = [], eval_type = ''script'', result = ''ERROR'',
       conversation_group = None, conversation_uuid = None,
       error = Some ''API connection failed''\<rparr>]"

section \<open>Theorems\<close>

text \<open>
  C9. For every score and every threshold configuration, the status is PASS if and only
  if the score is at least the threshold, and FAIL otherwise; a null threshold stands
  for 0.5.
\<close>

theorem determine_status_threshold:
  "(determine_status score (Some t) = ''PASS'' \<longleftrightarrow> float_ge score t)
   \<and> (determine_status score (Some t) = ''FAIL'' \<longleftrightarrow> \<not> float_ge score t)
   \<and> (determine_status score None = ''PASS'' \<longleftrightarrow> float_ge score (Finite (1 / 2)))
   \<and> (determine_status score None = ''FAIL'' \<longleftrightarrow> \<not> float_ge score (Finite (1 / 2)))"
  by (simp add: determine_status_def)

theorem determine_status_threshold_witness:
  "determine_status (Finite (1 / 2)) None = ''PASS''
   \<and> determine_status (Finite (49 / 100)) None = ''FAIL''
   \<and> determine_status (Finite (7 / 10)) (Some (Finite (8 / 10))) = ''FAIL''
   \<and> determine_status NaN (Some (Finite 0)) = ''FAIL''"
  using determine_status_threshold [of "Finite (1 / 2)" "Finite 0"]
    determine_status_threshold [of "Finite (49 / 100)" "Finite 0"]
    determine_status_threshold [of "Finite (7 / 10)" "Finite (8 / 10)"]
    determine_status_threshold [of NaN "Finite 0"]
  by simp

subsection \<open>The validated result model\<close>

lemma field_validator_result_empty:
  "field_validator f validate_result v = [] \<longleftrightarrow> v \<in> set VALID_EVAL_RESULTS"
  by (simp add: field_validator_def validate_result_def)

lemma field_validator_eval_type_empty:
  "field_validator f validate_eval_type v = [] \<longleftrightarrow> v \<in> set VALID_EVAL_TYPES"
  by (simp add: field_validator_def validate_eval_type_def)

lemma field_validator_names:
  "field_validator f g v \<noteq> [] \<Longrightarrow> f \<in> fst ` set (field_validator f g v)"
  by (auto simp: field_validator_def split: sum.splits)

text \<open>
  C10. Every successfully constructed result of the validated model has its result in
  PASS, FAIL, ERROR and its evaluation type in judge-llm, script, sub-string; a
  construction with a value outside these sets is rejected with a validation error, and
  so is the result FAILED, with an error on the field \<^verbatim>\<open>result\<close>.
\<close>

theorem new_EvaluationResult_valid:
  "(new_EvaluationResult i q r t res g u e = Inr x \<longrightarrow>
      Lsc_EvaluationResult.result x = res
      \<and> Lsc_EvaluationResult.eval_type x = t
      \<and> res \<in> {''PASS'', ''FAIL'', ''ERROR''}
      \<and> t \<in> {''judge-llm'', ''script'', ''sub-string''})
   \<and> (res \<notin> {''PASS'', ''FAIL'', ''ERROR''} \<or> t \<notin> {''judge-llm'', ''script'', ''sub-string''} \<longrightarrow>
      (\<exists>errors. new_EvaluationResult i q r t res g u e = Inl errors \<and> errors \<noteq> []))
   \<and> (\<exists>errors. new_EvaluationResult i q r t ''FAILED'' g u e = Inl errors
         \<and> ''result'' \<in> fst ` set errors)"
proof (intro conjI impI)
  assume ok: "new_EvaluationResult i q r t res g u e = Inr x"
  then have none: "field_validator ''eval_type'' validate_eval_type t = []"
      "field_validator ''result'' validate_result res = []"
    by (auto simp: new_EvaluationResult_def Let_def split: if_splits)
  from ok show "Lsc_EvaluationResult.result x = res" "Lsc_EvaluationResult.eval_type x = t"
    by (auto simp: new_EvaluationResult_def Let_def split: if_splits)
  from none show "res \<in> {''PASS'', ''FAIL'', ''ERROR''}"
    by (simp add: field_validator_result_empty VALID_EVAL_RESULTS_def)
  from none show "t \<in> {''judge-llm'', ''script'', ''sub-string''}"
    by (simp add: field_validator_eval_type_empty VALID_EVAL_TYPES_def)
next
  assume bad: "res \<notin> {''PASS'', ''FAIL'', ''ERROR''} \<or> t \<notin> {''judge-llm'', ''script'', ''sub-string''}"
  then have "field_validator ''result'' validate_result res \<noteq> []
             \<or> field_validator ''eval_type'' validate_eval_type t \<noteq> []"
    by (simp add: field_validator_result_empty field_validator_eval_type_empty
        VALID_EVAL_RESULTS_def VALID_EVAL_TYPES_def)
  then show "\<exists>errors. new_EvaluationResult i q r t res g u e = Inl errors \<and> errors \<noteq> []"
    by (auto simp: new_EvaluationResult_def Let_def)
next
  have "field_validator ''result'' validate_result ''FAILED'' \<noteq> []"
    by (simp add: field_validator_result_empty VALID_EVAL_RESULTS_def)
  then have "''result'' \<in> fst ` set (field_validator ''result'' validate_result ''FAILED'')"
    by (rule field_validator_names)
  then show "\<exists>errors. new_EvaluationResult i q r t ''FAILED'' g u e = Inl errors
         \<and> ''result'' \<in> fst ` set errors"
    by (auto simp: new_EvaluationResult_def Let_def)
qed

theorem new_EvaluationResult_valid_witness:
  "(\<exists>x. new_EvaluationResult ''t1'' ''What is Podman?'' ''a container engine'' ''sub-string''
          ''PASS'' None None None = Inr x
        \<and> Lsc_EvaluationResult.result x = ''PASS'')
   \<and> (\<exists>errors. new_EvaluationResult ''t1'' ''What is Podman?'' [] ''sub-string''
          ''FAILED'' None None None = Inl errors)
   \<and> (\<exists>errors. new_EvaluationResult ''t1'' ''What is Podman?'' [] ''keyword''
          ''PASS'' None None None = Inl errors)"
proof -
  have ok: "\<exists>x. new_EvaluationResult ''t1'' ''What is Podman?'' ''a container engine'' ''sub-string''
          ''PASS'' None None None = Inr x"
    by (simp add: new_EvaluationResult_def min_length_1_def field_validator_def
        validate_eval_type_def validate_result_def VALID_EVAL_TYPES_def VALID_EVAL_RESULTS_def)
  then obtain x where x: "new_EvaluationResult ''t1'' ''What is Podman?'' ''a container engine''
          ''sub-string'' ''PASS'' None None None = Inr x" ..
  have "Lsc_EvaluationResult.result x = ''PASS''"
    using new_EvaluationResult_valid [of "''t1''" "''What is Podman?''" "''a container engine''"
        "''sub-string''" "''PASS''" None None None x] x by blast
  moreover have "\<exists>errors. new_EvaluationResult ''t1'' ''What is Podman?'' [] ''sub-string''
          ''FAILED'' None None None = Inl errors"
    using new_EvaluationResult_valid [of "''t1''" "''What is Podman?''" "[]"
        "''sub-string''" "''FAILED''" None None None] by blast
  moreover have "\<exists>errors. new_EvaluationResult ''t1'' ''What is Podman?'' [] ''keyword''
          ''PASS'' None None None = Inl errors"
    using new_EvaluationResult_valid [of "''t1''" "''What is Podman?''" "[]"
        "''keyword''" "''PASS''" None None None] by auto
  ultimately show ?thesis using x by blast
qed

subsection \<open>The judge retry loop\<close>

lemma retry_range: "[0..<MAX_RETRY_ATTEMPTS] = [0, Suc 0, 2]"
  by (simp add: MAX_RETRY_ATTEMPTS_def upt_rec)

lemma str_nat_3: "str_nat MAX_RETRY_ATTEMPTS = ''3''"
  by (simp add: MAX_RETRY_ATTEMPTS_def str_nat.simps digit_char_def)

lemma evaluate_response_first:
  assumes "judge_attempt (backend 0) = Inr reply"
  shows "evaluate_response jm backend prompt
         = (Inr (Some reply), [Completion (model_name jm) prompt])"
  unfolding evaluate_response_def retry_range using assms by simp

lemma evaluate_response_second:
  assumes "judge_attempt (backend 0) = Inl e0" "judge_attempt (backend 1) = Inr reply"
  shows "evaluate_response jm backend prompt
         = (Inr (Some reply),
            [Completion (model_name jm) prompt, Sleep 2, Completion (model_name jm) prompt])"
  unfolding evaluate_response_def retry_range using assms
  by (simp add: MAX_RETRY_ATTEMPTS_def TIME_TO_BREATH_def)

lemma evaluate_response_third:
  assumes "judge_attempt (backend 0) = Inl e0" "judge_attempt (backend 1) = Inl e1"
    "judge_attempt (backend 2) = Inr reply"
  shows "evaluate_response jm backend prompt
         = (Inr (Some reply),
            [Completion (model_name jm) prompt, Sleep 2, Completion (model_name jm) prompt,
             Sleep 2, Completion (model_name jm) prompt])"
  unfolding evaluate_response_def retry_range using assms
  by (simp add: MAX_RETRY_ATTEMPTS_def TIME_TO_BREATH_def)

lemma evaluate_response_exhausted:
  assumes "judge_attempt (backend 0) = Inl e0" "judge_attempt (backend 1) = Inl e1"
    "judge_attempt (backend 2) = Inl e2"
  shows "evaluate_response jm backend prompt
         = (Inl (JudgeModelError (''Judge model evaluation failed after 3 attempts: '' @ exn_str e2)),
            [Completion (model_name jm) prompt, Sleep 2, Completion (model_name jm) prompt,
             Sleep 2, Completion (model_name jm) prompt])"
proof -
  have "str_nat 3 = ''3''"
    using str_nat_3 by (simp add: MAX_RETRY_ATTEMPTS_def)
  with assms show ?thesis
    unfolding evaluate_response_def retry_range
    by (simp add: MAX_RETRY_ATTEMPTS_def TIME_TO_BREATH_def)
qed

text \<open>
  C4. For every prompt and every behaviour of the judge backend, the invocation makes at
  most 3 completion requests, with a sleep of 2 seconds between two consecutive
  requests and nowhere else. If all three attempts fail it raises a
  \<^verbatim>\<open>JudgeModelError\<close> after the third request, with no sleep after it. If attempt
  \<open>n\<close> is the first that succeeds, it returns that attempt's (stripped) text after
  exactly \<open>n + 1\<close> requests.
\<close>

theorem evaluate_response_retry:
  fixes backend :: "nat \<Rightarrow> exn + string option" and jm :: JudgeModelManager
    and prompt :: string
  defines "ok n \<equiv> \<not> isl (judge_attempt (backend n))"
  defines "C \<equiv> Completion (model_name jm) prompt"
  defines "R \<equiv> evaluate_response jm backend prompt"
  shows "length (filter (\<lambda>ev. ev = C) (snd R)) \<le> 3
    \<and> (\<exists>k < 3. snd R = concat (replicate k [C, Sleep 2]) @ [C])
    \<and> (\<not> ok 0 \<and> \<not> ok 1 \<and> \<not> ok 2 \<longrightarrow>
          (\<exists>msg. fst R = Inl (JudgeModelError msg))
          \<and> snd R = [C, Sleep 2, C, Sleep 2, C])
    \<and> (\<forall>n reply. n < 3 \<and> judge_attempt (backend n) = Inr reply \<and> (\<forall>m < n. \<not> ok m) \<longrightarrow>
          fst R = Inr (Some reply)
          \<and> snd R = concat (replicate n [C, Sleep 2]) @ [C])"
proof -
  have shape: "\<exists>k < 3. snd R = concat (replicate k [C, Sleep 2]) @ [C]"
  proof (cases "judge_attempt (backend 0)")
    case (Inr t0)
    then have "snd R = concat (replicate 0 [C, Sleep 2]) @ [C]"
      by (simp add: R_def C_def evaluate_response_first)
    then show ?thesis by (intro exI [of _ 0]) simp
  next
    case e0: (Inl e0)
    show ?thesis
    proof (cases "judge_attempt (backend 1)")
      case (Inr t1)
      with e0 have "snd R = concat (replicate 1 [C, Sleep 2]) @ [C]"
        by (simp add: R_def C_def evaluate_response_second)
      then show ?thesis by (intro exI [of _ 1]) simp
    next
      case e1: (Inl e1)
      have "snd R = concat (replicate 2 [C, Sleep 2]) @ [C]"
      proof (cases "judge_attempt (backend 2)")
        case (Inr t2)
        with e0 e1 show ?thesis
          by (simp add: R_def C_def evaluate_response_third numeral_2_eq_2)
      next
        case (Inl e2)
        with e0 e1 show ?thesis
          by (simp add: R_def C_def evaluate_response_exhausted numeral_2_eq_2)
      qed
      then show ?thesis by (intro exI [of _ 2]) simp
    qed
  qed
  have count: "length (filter (\<lambda>ev. ev = C) (snd R)) \<le> 3"
  proof -
    from shape obtain k where k: "k < 3" "snd R = concat (replicate k [C, Sleep 2]) @ [C]"
      by blast
    have "length (filter (\<lambda>ev. ev = C) (concat (replicate j [C, Sleep 2]))) = j" for j
      by (induction j) (simp_all add: C_def)
    with k show ?thesis by simp
  qed
  have exhausted: "(\<exists>msg. fst R = Inl (JudgeModelError msg)) \<and> snd R = [C, Sleep 2, C, Sleep 2, C]"
    if "\<not> ok 0 \<and> \<not> ok 1 \<and> \<not> ok 2"
  proof -
    from that obtain e0 e1 e2 where "judge_attempt (backend 0) = Inl e0"
      "judge_attempt (backend 1) = Inl e1" "judge_attempt (backend 2) = Inl e2"
      by (auto simp: ok_def isl_def)
    then show ?thesis
      by (simp add: R_def C_def evaluate_response_exhausted)
  qed
  have success: "fst R = Inr (Some reply) \<and> snd R = concat (replicate n [C, Sleep 2]) @ [C]"
    if "n < 3 \<and> judge_attempt (backend n) = Inr reply \<and> (\<forall>m < n. \<not> ok m)" for n reply
  proof -
    from that have "n = 0 \<or> n = 1 \<or> n = 2" by auto
    then show ?thesis
    proof (elim disjE)
      assume "n = 0"
      with that show ?thesis by (simp add: R_def C_def evaluate_response_first)
    next
      assume n: "n = 1"
      with that have "\<not> ok 0" by simp
      then obtain e0 where "judge_attempt (backend 0) = Inl e0"
        by (auto simp: ok_def isl_def)
      with that n show ?thesis by (simp add: R_def C_def evaluate_response_second)
    next
      assume n: "n = 2"
      with that have "\<not> ok 0" "\<not> ok 1" by simp_all
      then obtain e0 e1 where "judge_attempt (backend 0) = Inl e0"
        "judge_attempt (backend 1) = Inl e1"
        by (auto simp: ok_def isl_def)
      with that n show ?thesis
        by (simp add: R_def C_def evaluate_response_third numeral_2_eq_2)
    qed
  qed
  from count shape exhausted success show ?thesis by blast
qed


theorem evaluate_response_retry_witness:
  "evaluate_response \<lparr>judge_provider = ''openai'', judge_model = ''gpt-4'', model_name = ''gpt-4''\<rparr>
     (\<lambda>n. if n = 0 then Inl (Exception ''connection reset'') else Inr (Some '' 1 ''))
     ''Is the answer correct?''
   = (Inr (Some ''1''),
      [Completion ''gpt-4'' ''Is the answer correct?'', Sleep 2,
       Completion ''gpt-4'' ''Is the answer correct?''])
   \<and> (\<exists>msg. fst (evaluate_response
                   \<lparr>judge_provider = ''openai'', judge_model = ''gpt-4'', model_name = ''gpt-4''\<rparr>
                   (\<lambda>n. Inl (Exception ''connection reset'')) ''Is the answer correct?'')
              = Inl (JudgeModelError msg))"
proof -
  let ?jm = "\<lparr>judge_provider = ''openai'', judge_model = ''gpt-4'', model_name = ''gpt-4''\<rparr>"
  let ?b = "\<lambda>n::nat. if n = 0 then Inl (Exception ''connection reset'') else Inr (Some '' 1 '')"
  let ?dead = "\<lambda>n::nat. Inl (Exception ''connection reset'') :: exn + string option"
  have s: "strip '' 1 '' = ''1''"
    by code_simp
  have b0: "isl (judge_attempt (?b 0))"
    by (simp add: judge_attempt_def)
  have b1: "judge_attempt (?b 1) = Inr ''1''"
    by (simp add: judge_attempt_def s)
  have "fst (evaluate_response ?jm ?b ''Is the answer correct?'') = Inr (Some ''1'')
        \<and> snd (evaluate_response ?jm ?b ''Is the answer correct?'')
          = concat (replicate 1 [Completion (model_name ?jm) ''Is the answer correct?'', Sleep 2])
            @ [Completion (model_name ?jm) ''Is the answer correct?'']"
    using evaluate_response_retry [where backend = ?b and jm = ?jm
        and prompt = "''Is the answer correct?''"] b0 b1
    by (elim conjE allE [of _ 1] allE [of _ "''1''"]) simp
  then have first: "evaluate_response ?jm ?b ''Is the answer correct?''
      = (Inr (Some ''1''),
         [Completion ''gpt-4'' ''Is the answer correct?'', Sleep 2,
          Completion ''gpt-4'' ''Is the answer correct?''])"
    by (cases "evaluate_response ?jm ?b ''Is the answer correct?''") simp
  have "\<forall>n. isl (judge_attempt (?dead n))"
    by (simp add: judge_attempt_def)
  then have "\<exists>msg. fst (evaluate_response ?jm ?dead ''Is the answer correct?'')
      = Inl (JudgeModelError msg)"
    using evaluate_response_retry [where backend = ?dead and jm = ?jm
        and prompt = "''Is the answer correct?''"]
    by simp
  with first show ?thesis by simp
qed

subsection \<open>Verdict extraction from the judge's text\<close>

lemma is_word_digits: "is_word (CHR ''0'')" "is_word (CHR ''1'')"
  by (simp_all add: is_word_def)

lemma isspace_not_word: "isspace c \<Longrightarrow> \<not> is_word c"
  by (auto simp: isspace_def is_word_def Let_def)

lemma isspace_not_digit: "isspace c \<Longrightarrow> c \<noteq> CHR ''0'' \<and> c \<noteq> CHR ''1''"
  using isspace_not_word is_word_digits by blast

lemma findall_prev_cong:
  "opt_is_word p = opt_is_word p' \<Longrightarrow> findall_b01b p s = findall_b01b p' s"
  by (cases s) (simp_all add: word_boundary_def)

lemma findall_tokens: "set (findall_b01b p s) \<subseteq> {''0'', ''1''}"
  by (induction s arbitrary: p) auto

lemma findall_lstrip:
  "\<not> opt_is_word p \<Longrightarrow> findall_b01b p (lstrip s) = findall_b01b p s"
proof (induction s)
  case Nil
  then show ?case by (simp add: lstrip_def)
next
  case (Cons c cs)
  show ?case
  proof (cases "isspace c")
    case True
    then have "findall_b01b p (c # cs) = findall_b01b (Some c) cs"
      using isspace_not_digit by simp
    also have "\<dots> = findall_b01b p cs"
      using True Cons.prems isspace_not_word by (intro findall_prev_cong) simp
    finally show ?thesis
      using True Cons by (simp add: lstrip_def)
  next
    case False
    then show ?thesis by (simp add: lstrip_def)
  qed
qed

lemma findall_spaces: "\<forall>c \<in> set ws. isspace c \<Longrightarrow> findall_b01b p ws = []"
  by (induction ws arbitrary: p) (auto dest: isspace_not_digit)

lemma findall_append_spaces:
  assumes "\<forall>c \<in> set ws. isspace c"
  shows "findall_b01b p (t @ ws) = findall_b01b p t"
proof (induction t arbitrary: p)
  case Nil
  then show ?case using assms by (simp add: findall_spaces)
next
  case (Cons c cs)
  have "opt_is_word (case cs @ ws of [] \<Rightarrow> None | d # _ \<Rightarrow> Some d)
        = opt_is_word (case cs of [] \<Rightarrow> None | d # _ \<Rightarrow> Some d)"
    using assms by (cases cs; cases ws) (auto dest: isspace_not_word)
  then show ?case using Cons by (simp add: word_boundary_def)
qed

lemma findall_rstrip: "findall_b01b p (rstrip s) = findall_b01b p s"
proof -
  have "s = rstrip s @ rev (takeWhile isspace (rev s))"
    unfolding rstrip_def by (metis rev_append rev_rev_ident takeWhile_dropWhile_id)
  moreover have "\<forall>c \<in> set (rev (takeWhile isspace (rev s))). isspace c"
    by (auto dest: set_takeWhileD)
  ultimately show ?thesis
    using findall_append_spaces by metis
qed

lemma findall_strip: "findall_b01b None (strip s) = findall_b01b None s"
  by (simp add: strip_def findall_rstrip findall_lstrip)

lemma int_of_digits_token: "int_of_digits ''0'' = 0" "int_of_digits ''1'' = 1"
  by (simp_all add: int_of_digits_def)

lemma findall_exact: "findall_b01b None ''1'' = [''1'']" "findall_b01b None ''0'' = [''0'']"
  by (simp_all add: word_boundary_def is_word_digits)

text \<open>
  C3. For every judge text: if the stripped text is exactly 1 the result is 1, if it is
  exactly 0 the result is 0; otherwise, if the text has a standalone 0 or 1 token, the
  result is the value of the first such token; otherwise the result is 0. So the result
  is always 0 or 1, and it is 1 only if the text holds a standalone 1 token.
\<close>

theorem extract_numeric_result_order:
  "(strip r = ''1'' \<longrightarrow> extract_numeric_result r = 1)
   \<and> (strip r = ''0'' \<longrightarrow> extract_numeric_result r = 0)
   \<and> (strip r \<noteq> ''1'' \<and> strip r \<noteq> ''0'' \<longrightarrow>
        (\<forall>n ns. findall_b01b None r = n # ns \<longrightarrow>
           (n = ''0'' \<or> n = ''1'') \<and> extract_numeric_result r = (if n = ''1'' then 1 else 0))
        \<and> (findall_b01b None r = [] \<longrightarrow> extract_numeric_result r = 0))
   \<and> (extract_numeric_result r = 0 \<or> extract_numeric_result r = 1)
   \<and> (''1'' \<notin> set (findall_b01b None r) \<longrightarrow> extract_numeric_result r \<noteq> 1)"
proof -
  have tok: "n = ''0'' \<or> n = ''1''" if "findall_b01b None r = n # ns" for n ns
    using findall_tokens [of None r] that by auto
  have first: "extract_numeric_result r = (if n = ''1'' then 1 else 0)"
    if "strip r \<noteq> ''1''" "strip r \<noteq> ''0''" "findall_b01b None r = n # ns" for n ns
    using that tok [OF that(3)]
    by (auto simp: extract_numeric_result_def findall_strip int_of_digits_token)
  have none: "extract_numeric_result r = 0"
    if "strip r \<noteq> ''1''" "strip r \<noteq> ''0''" "findall_b01b None r = []"
    using that by (simp add: extract_numeric_result_def findall_strip)
  have one: "extract_numeric_result r = 1" if "strip r = ''1''"
    using that by (simp add: extract_numeric_result_def)
  have zero: "extract_numeric_result r = 0" if "strip r = ''0''"
    using that by (simp add: extract_numeric_result_def)
  have range: "extract_numeric_result r = 0 \<or> extract_numeric_result r = 1"
  proof (cases "strip r = ''1'' \<or> strip r = ''0''")
    case True
    then show ?thesis using one zero by blast
  next
    case False
    then show ?thesis
      using first none by (cases "findall_b01b None r") auto
  qed
  have closed: "extract_numeric_result r \<noteq> 1" if no1: "''1'' \<notin> set (findall_b01b None r)"
  proof (cases "strip r = ''1''")
    case True
    then have "findall_b01b None (strip r) = [''1'']"
      by (simp only: findall_exact)
    then have "findall_b01b None r = [''1'']"
      by (simp only: findall_strip)
    with no1 show ?thesis by simp
  next
    case n1: False
    show ?thesis
    proof (cases "strip r = ''0''")
      case True
      then show ?thesis using zero by simp
    next
      case False
      show ?thesis
      proof (cases "findall_b01b None r")
        case Nil
        with n1 False show ?thesis using none by simp
      next
        case (Cons n ns)
        with no1 have "n \<noteq> ''1''" by auto
        with n1 False Cons show ?thesis using first by simp
      qed
    qed
  qed
  from one zero first none tok range closed show ?thesis by blast
qed

theorem extract_numeric_result_order_witness:
  "extract_numeric_result '' 1 '' = 1
   \<and> extract_numeric_result ''Verdict: 0. Not 1'' = 0
   \<and> extract_numeric_result ''maybe'' = 0
   \<and> extract_numeric_result ''10 out of 10'' \<noteq> 1"
proof -
  have s1: "strip '' 1 '' = ''1''" by code_simp
  have s2: "strip ''Verdict: 0. Not 1'' = ''Verdict: 0. Not 1''" by code_simp
  have f2: "findall_b01b None ''Verdict: 0. Not 1'' = [''0'', ''1'']" by code_simp
  have s3: "strip ''maybe'' = ''maybe''" by code_simp
  have f3: "findall_b01b None ''maybe'' = []" by code_simp
  have f4: "findall_b01b None ''10 out of 10'' = []" by code_simp
  have "extract_numeric_result '' 1 '' = 1"
    using extract_numeric_result_order [of "'' 1 ''"] s1 by blast
  moreover have "extract_numeric_result ''Verdict: 0. Not 1'' = 0"
    using extract_numeric_result_order [of "''Verdict: 0. Not 1''"] s2 f2 by simp
  moreover have "extract_numeric_result ''maybe'' = 0"
    using extract_numeric_result_order [of "''maybe''"] s3 f3 by simp
  moreover have "extract_numeric_result ''10 out of 10'' \<noteq> 1"
    using extract_numeric_result_order [of "''10 out of 10''"] f4 by simp
  ultimately show ?thesis by blast
qed

subsection \<open>The script runner and the steps of an evaluation\<close>

text \<open>
  With a script file given, an exception of \<^verbatim>\<open>run_script\<close> is a
  \<^verbatim>\<open>ScriptExecutionError\<close>, or it is what the existence check of the script raised.
\<close>

lemma run_script_raises:
  "run_script sw (Some f) check kube = Inl e
   \<Longrightarrow> (\<exists>m. e = ScriptExecutionError m) \<or> script_exists sw = Inl e"
  by (auto simp: run_script_def Let_def split: if_splits sum.splits exn.splits bool.splits)

lemma run_script_checked_raises:
  "script_exists sw = Inr b \<Longrightarrow> run_script sw (Some f) check kube = Inl e
   \<Longrightarrow> \<exists>m. e = ScriptExecutionError m"
  using run_script_raises by fastforce

lemma run_script_check_raises:
  "script_exists sw = Inl e \<Longrightarrow> run_script sw (Some f) check kube = Inl e"
  by (simp add: run_script_def)

lemma run_cleanup_events:
  "snd (run_cleanup self w data_config)
   = (if truthy (eval_cleanup_script data_config)
      then [RunScript (eval_cleanup_script data_config)] else [])"
  by (auto simp: run_cleanup_def split: sum.splits exn.splits)

lemma run_cleanup_skipped:
  "\<not> truthy (eval_cleanup_script data_config) \<Longrightarrow> fst (run_cleanup self w data_config) = None"
  by (simp add: run_cleanup_def)

text \<open>The cleanup step drops every failure but the one of the existence check.\<close>

lemma run_cleanup_checked:
  assumes "script_exists (cleanup_world w) = Inr b"
  shows "fst (run_cleanup self w data_config) = None"
proof (cases "eval_cleanup_script data_config")
  case None
  then show ?thesis by (simp add: run_cleanup_def)
next
  case (Some f)
  show ?thesis
  proof (cases "run_script (cleanup_world w) (Some f) True (kubeconfig self)")
    case (Inl e)
    with assms obtain m where "e = ScriptExecutionError m"
      using run_script_checked_raises by blast
    with Inl Some show ?thesis by (simp add: run_cleanup_def)
  next
    case (Inr r)
    with Some show ?thesis by (simp add: run_cleanup_def)
  qed
qed

lemma run_cleanup_check_raises:
  assumes "truthy (eval_cleanup_script data_config)"
    and "script_exists (cleanup_world w) = Inl e"
    and "\<forall>m. e \<noteq> ScriptExecutionError m"
  shows "fst (run_cleanup self w data_config) = Some e"
proof -
  from assms(1) obtain f where f: "eval_cleanup_script data_config = Some f"
    by (cases "eval_cleanup_script data_config") simp_all
  have "run_script (cleanup_world w) (Some f) True (kubeconfig self) = Inl e"
    using assms(2) by (rule run_script_check_raises)
  with assms(1,3) f show ?thesis
    by (cases e) (simp_all add: run_cleanup_def)
qed

text \<open>The four ways the setup step ends.\<close>

lemma run_setup_cases:
  obtains (skipped) "run_setup self w data_config = (Inr None, [])"
      "\<not> truthy (eval_setup_script data_config)"
  | (ran) r where
      "run_setup self w data_config = (Inr None, [RunScript (eval_setup_script data_config)])"
      "truthy (eval_setup_script data_config)"
      "run_script (setup_world w) (eval_setup_script data_config) True (kubeconfig self) = Inr r"
  | (failed) m where
      "run_setup self w data_config
       = (Inr (Some (failed_result data_config (''Setup script failed: '' @ m))),
          [RunScript (eval_setup_script data_config)])"
      "truthy (eval_setup_script data_config)"
      "run_script (setup_world w) (eval_setup_script data_config) True (kubeconfig self)
       = Inl (ScriptExecutionError m)"
  | (raised) e where
      "run_setup self w data_config = (Inl e, [RunScript (eval_setup_script data_config)])"
      "truthy (eval_setup_script data_config)"
      "run_script (setup_world w) (eval_setup_script data_config) True (kubeconfig self) = Inl e"
      "\<forall>m. e \<noteq> ScriptExecutionError m"
proof (cases "truthy (eval_setup_script data_config)")
  case False
  then have "run_setup self w data_config = (Inr None, [])"
    by (simp add: run_setup_def)
  with False show ?thesis using skipped by blast
next
  case True
  show ?thesis
  proof (cases "run_script (setup_world w) (eval_setup_script data_config) True (kubeconfig self)")
    case (Inr r)
    with True have "run_setup self w data_config
        = (Inr None, [RunScript (eval_setup_script data_config)])"
      by (simp add: run_setup_def)
    from this True Inr show ?thesis using ran by blast
  next
    case (Inl e)
    show ?thesis
    proof (cases "\<exists>m. e = ScriptExecutionError m")
      case True
      then obtain m where m: "e = ScriptExecutionError m" ..
      with Inl \<open>truthy (eval_setup_script data_config)\<close>
      have "run_setup self w data_config
          = (Inr (Some (failed_result data_config (''Setup script failed: '' @ m))),
             [RunScript (eval_setup_script data_config)])"
        by (simp add: run_setup_def)
      from this \<open>truthy (eval_setup_script data_config)\<close> Inl m show ?thesis
        using failed by blast
    next
      case False
      with Inl \<open>truthy (eval_setup_script data_config)\<close>
      have "run_setup self w data_config = (Inl e, [RunScript (eval_setup_script data_config)])"
        by (cases e) (simp_all add: run_setup_def)
      from this \<open>truthy (eval_setup_script data_config)\<close> Inl False show ?thesis
        using raised by blast
    qed
  qed
qed

lemma run_setup_events:
  "set (snd (run_setup self w data_config)) \<subseteq> {RunScript (eval_setup_script data_config)}"
  by (cases rule: run_setup_cases [of self w data_config]) simp_all

text \<open>What the steps after the setup return.\<close>

lemma query_and_evaluate_fst:
  "fst (query_and_evaluate self w data_config agent_provider agent_model)
   = (case query_agent (agent_post w (eval_query data_config) agent_provider agent_model) of
        Inl e \<Rightarrow> Inl e
      | Inr resp \<Rightarrow>
          (case fst (runner_evaluate_response self w data_config resp) of
             Inl e \<Rightarrow> Inl e
           | Inr success \<Rightarrow>
               (case fst (run_cleanup self w data_config) of
                  Some e \<Rightarrow> Inl e
                | None \<Rightarrow> Inr (verdict_result data_config resp success))))"
proof (cases "query_agent (agent_post w (eval_query data_config) agent_provider agent_model)")
  case (Inl e)
  then show ?thesis by (simp add: query_and_evaluate_def)
next
  case (Inr resp)
  obtain s evs where s: "runner_evaluate_response self w data_config resp = (s, evs)"
    by (cases "runner_evaluate_response self w data_config resp")
  obtain c cevs where c: "run_cleanup self w data_config = (c, cevs)"
    by (cases "run_cleanup self w data_config")
  from Inr s c show ?thesis
    by (cases s; cases c) (simp_all add: query_and_evaluate_def)
qed

lemma query_and_evaluate_snd:
  "set (snd (query_and_evaluate self w data_config agent_provider agent_model))
   \<subseteq> {QueryAgent (eval_query data_config) agent_provider agent_model}
     \<union> (\<Union>resp. set (snd (runner_evaluate_response self w data_config resp)))
     \<union> set (snd (run_cleanup self w data_config))"
proof (cases "query_agent (agent_post w (eval_query data_config) agent_provider agent_model)")
  case (Inl e)
  then show ?thesis by (simp add: query_and_evaluate_def)
next
  case (Inr resp)
  obtain s evs where s: "runner_evaluate_response self w data_config resp = (s, evs)"
    by (cases "runner_evaluate_response self w data_config resp")
  then have evs: "set evs \<subseteq> (\<Union>resp. set (snd (runner_evaluate_response self w data_config resp)))"
    by (metis UNIV_I UN_upper snd_conv)
  obtain c cevs where c: "run_cleanup self w data_config = (c, cevs)"
    by (cases "run_cleanup self w data_config")
  from Inr s c evs show ?thesis
    by (cases s; cases c) (auto simp: query_and_evaluate_def)
qed

lemma query_and_evaluate_verdict:
  assumes "query_agent (agent_post w (eval_query data_config) agent_provider agent_model) = Inr resp"
    and "runner_evaluate_response self w data_config resp = (Inr success, evs)"
    and "fst (run_cleanup self w data_config) = None"
  shows "query_and_evaluate self w data_config agent_provider agent_model
         = (Inr (verdict_result data_config resp success),
            QueryAgent (eval_query data_config) agent_provider agent_model # evs
            @ snd (run_cleanup self w data_config))"
proof -
  obtain cevs where c: "run_cleanup self w data_config = (None, cevs)"
    using assms(3) by (cases "run_cleanup self w data_config") simp
  with assms show ?thesis
    by (simp add: query_and_evaluate_def)
qed

lemma run_evaluation_fst:
  "fst (run_evaluation self w data_config agent_provider agent_model)
   = (case fst (run_setup self w data_config) of
        Inl e \<Rightarrow> failed_result data_config (exn_str e)
      | Inr (Some res) \<Rightarrow> res
      | Inr None \<Rightarrow>
          (case fst (query_and_evaluate self w data_config agent_provider agent_model) of
             Inl e \<Rightarrow> failed_result data_config (exn_str e)
           | Inr res \<Rightarrow> res))"
proof -
  obtain s sevs where s: "run_setup self w data_config = (s, sevs)"
    by (cases "run_setup self w data_config")
  obtain r evs where r: "query_and_evaluate self w data_config agent_provider agent_model = (r, evs)"
    by (cases "query_and_evaluate self w data_config agent_provider agent_model")
  show ?thesis
    by (simp add: run_evaluation_def run_evaluation_try_def s r split: sum.splits option.splits)
qed

lemma run_evaluation_snd:
  "set (snd (run_evaluation self w data_config agent_provider agent_model))
   \<subseteq> set (snd (run_setup self w data_config))
     \<union> set (snd (query_and_evaluate self w data_config agent_provider agent_model))"
proof -
  obtain s sevs where s: "run_setup self w data_config = (s, sevs)"
    by (cases "run_setup self w data_config")
  obtain r evs where r: "query_and_evaluate self w data_config agent_provider agent_model = (r, evs)"
    by (cases "query_and_evaluate self w data_config agent_provider agent_model")
  show ?thesis
    by (auto simp: run_evaluation_def run_evaluation_try_def s r split: sum.splits option.splits)
qed

lemma run_evaluation_verdict:
  assumes "fst (run_setup self w data_config) = Inr None"
    and "query_agent (agent_post w (eval_query data_config) agent_provider agent_model) = Inr resp"
    and "runner_evaluate_response self w data_config resp = (Inr success, evs)"
    and "fst (run_cleanup self w data_config) = None"
  shows "run_evaluation self w data_config agent_provider agent_model
         = (verdict_result data_config resp success,
            snd (run_setup self w data_config)
            @ QueryAgent (eval_query data_config) agent_provider agent_model # evs
            @ snd (run_cleanup self w data_config))"
proof -
  obtain sevs where "run_setup self w data_config = (Inr None, sevs)"
    using assms(1) by (cases "run_setup self w data_config") simp
  then show ?thesis
    by (simp add: run_evaluation_def run_evaluation_try_def
        query_and_evaluate_verdict [OF assms(2,3,4)])
qed

lemma run_evaluation_strategy_raises:
  assumes "fst (run_setup self w data_config) = Inr None"
    and "query_agent (agent_post w (eval_query data_config) agent_provider agent_model) = Inr resp"
    and "fst (runner_evaluate_response self w data_config resp) = Inl e"
  shows "fst (run_evaluation self w data_config agent_provider agent_model)
         = failed_result data_config (exn_str e)"
  using assms by (simp add: run_evaluation_fst query_and_evaluate_fst)

lemma run_evaluation_cleanup_raises:
  assumes "fst (run_setup self w data_config) = Inr None"
    and "query_agent (agent_post w (eval_query data_config) agent_provider agent_model) = Inr resp"
    and "fst (runner_evaluate_response self w data_config resp) = Inr success"
    and "fst (run_cleanup self w data_config) = Some e"
  shows "fst (run_evaluation self w data_config agent_provider agent_model)
         = failed_result data_config (exn_str e)"
  using assms by (simp add: run_evaluation_fst query_and_evaluate_fst)

text \<open>
  Every evaluation ends in one of two ways: with the \<^verbatim>\<open>FAILED\<close> result, or with the
  verdict of the strategy on the agent's response.
\<close>

lemma run_evaluation_result_cases:
  obtains (failed) msg where
      "fst (run_evaluation self w data_config agent_provider agent_model)
       = failed_result data_config msg"
  | (verdict) resp success where
      "fst (run_setup self w data_config) = Inr None"
      "query_agent (agent_post w (eval_query data_config) agent_provider agent_model) = Inr resp"
      "fst (runner_evaluate_response self w data_config resp) = Inr success"
      "fst (run_cleanup self w data_config) = None"
      "fst (run_evaluation self w data_config agent_provider agent_model)
       = verdict_result data_config resp success"
proof (cases "fst (run_setup self w data_config)")
  case (Inl e)
  then show ?thesis using failed by (simp add: run_evaluation_fst)
next
  case su: (Inr early)
  show ?thesis
  proof (cases early)
    case (Some res)
    have "\<exists>m. res = failed_result data_config (''Setup script failed: '' @ m)"
      using su Some by (cases rule: run_setup_cases [of self w data_config]) auto
    then obtain m where "res = failed_result data_config (''Setup script failed: '' @ m)" ..
    with su Some show ?thesis using failed by (simp add: run_evaluation_fst)
  next
    case None
    show ?thesis
    proof (cases "query_agent (agent_post w (eval_query data_config) agent_provider agent_model)")
      case (Inl e)
      with su None show ?thesis
        using failed by (simp add: run_evaluation_fst query_and_evaluate_fst)
    next
      case qu: (Inr resp)
      show ?thesis
      proof (cases "fst (runner_evaluate_response self w data_config resp)")
        case (Inl e)
        with su None qu show ?thesis
          using failed by (simp add: run_evaluation_fst query_and_evaluate_fst)
      next
        case st: (Inr success)
        show ?thesis
        proof (cases "fst (run_cleanup self w data_config)")
          case (Some e)
          with su None qu st show ?thesis
            using failed by (simp add: run_evaluation_fst query_and_evaluate_fst)
        next
          case cl: None
          with su None qu st
          have "fst (run_evaluation self w data_config agent_provider agent_model)
                = verdict_result data_config resp success"
            by (simp add: run_evaluation_fst query_and_evaluate_fst)
          with su None qu st cl show ?thesis
            using verdict by simp
        qed
      qed
    qed
  qed
qed

lemma failed_result_simps:
  "EvaluationResult.result (failed_result data_config msg) = ''FAILED''"
  "EvaluationResult.error (failed_result data_config msg) = Some msg"
  "EvaluationResult.response (failed_result data_config msg) = []"
  by (simp_all add: failed_result_def)

lemma verdict_result_simps:
  "EvaluationResult.result (verdict_result data_config resp success)
   = (if success then ''PASS'' else ''FAIL'')"
  "EvaluationResult.error (verdict_result data_config resp success) = None"
  "EvaluationResult.response (verdict_result data_config resp success) = resp"
  by (simp_all add: verdict_result_def)


subsection \<open>Setup failure\<close>

text \<open>
  C1, as the code has it. For every configuration with a setup script, if the setup
  script fails then \<^verbatim>\<open>run_evaluation\<close> returns the result labelled \<^verbatim>\<open>FAILED\<close>
  (never \<^verbatim>\<open>FAIL\<close> or \<^verbatim>\<open>PASS\<close>) with an empty response and an error text, which is
  \<^verbatim>\<open>Setup script failed: ...\<close> for a \<^verbatim>\<open>ScriptExecutionError\<close> and the text of the
  exception otherwise, and the agent is never queried: the only call that leaves the
  process is the run of the setup script.
\<close>

theorem setup_failure_aborts:
  assumes "truthy (eval_setup_script data_config)"
    and "run_script (setup_world w) (eval_setup_script data_config) True (kubeconfig self) = Inl e"
  shows "EvaluationResult.result (fst (run_evaluation self w data_config agent_provider agent_model))
           = ''FAILED''
    \<and> (\<forall>m. e = ScriptExecutionError m \<longrightarrow>
          EvaluationResult.error (fst (run_evaluation self w data_config agent_provider agent_model))
            = Some (''Setup script failed: '' @ m))
    \<and> ((\<forall>m. e \<noteq> ScriptExecutionError m) \<longrightarrow>
          EvaluationResult.error (fst (run_evaluation self w data_config agent_provider agent_model))
            = Some (exn_str e))
    \<and> EvaluationResult.response (fst (run_evaluation self w data_config agent_provider agent_model))
           = []
    \<and> snd (run_evaluation self w data_config agent_provider agent_model)
           = [RunScript (eval_setup_script data_config)]
    \<and> (\<forall>q p m. QueryAgent q p m \<notin> set (snd (run_evaluation self w data_config agent_provider agent_model)))"
proof (cases rule: run_setup_cases [of self w data_config])
  case skipped
  with assms(1) show ?thesis by simp
next
  case (ran r)
  with assms(2) show ?thesis by simp
next
  case (failed m)
  then have "run_evaluation self w data_config agent_provider agent_model
      = (failed_result data_config (''Setup script failed: '' @ m),
         [RunScript (eval_setup_script data_config)])"
    by (simp add: run_evaluation_def run_evaluation_try_def)
  moreover from failed(3) assms(2) have "e = ScriptExecutionError m" by simp
  ultimately show ?thesis by (simp add: failed_result_simps)
next
  case (raised e')
  then have "run_evaluation self w data_config agent_provider agent_model
      = (failed_result data_config (exn_str e'), [RunScript (eval_setup_script data_config)])"
    by (simp add: run_evaluation_def run_evaluation_try_def)
  moreover from raised(3,4) assms(2) have "e = e'" "\<forall>m. e \<noteq> ScriptExecutionError m" by simp_all
  ultimately show ?thesis by (simp add: failed_result_simps)
qed

theorem setup_failure_aborts_witness:
  "run_script (setup_world (mock_world script_missing (script_exits 0) (script_exits 0) ''Podman''))
      (eval_setup_script sample_config_with_setup) True (kubeconfig runner_without_judge)
     = Inl (ScriptExecutionError ''Script not found: setup.sh'')
   \<and> EvaluationResult.error (fst (run_evaluation runner_without_judge
        (mock_world script_missing (script_exits 0) (script_exits 0) ''Podman'')
        sample_config_with_setup ''openai'' ''gpt-4''))
     = Some ''Setup script failed: Script not found: setup.sh''
   \<and> snd (run_evaluation runner_without_judge
        (mock_world script_missing (script_exits 0) (script_exits 0) ''Podman'')
        sample_config_with_setup ''openai'' ''gpt-4'') = [RunScript (Some ''setup.sh'')]
   \<and> run_script (setup_world (mock_world script_name_too_long (script_exits 0) (script_exits 0) ''Podman''))
      (eval_setup_script sample_config_long_setup) True (kubeconfig runner_without_judge)
     = Inl (OSError name_too_long)
   \<and> EvaluationResult.result (fst (run_evaluation runner_without_judge
        (mock_world script_name_too_long (script_exits 0) (script_exits 0) ''Podman'')
        sample_config_long_setup ''openai'' ''gpt-4'')) = ''FAILED''
   \<and> EvaluationResult.error (fst (run_evaluation runner_without_judge
        (mock_world script_name_too_long (script_exits 0) (script_exits 0) ''Podman'')
        sample_config_long_setup ''openai'' ''gpt-4'')) = Some name_too_long
   \<and> snd (run_evaluation runner_without_judge
        (mock_world script_name_too_long (script_exits 0) (script_exits 0) ''Podman'')
        sample_config_long_setup ''openai'' ''gpt-4'') = [RunScript (Some long_name)]"
proof -
  let ?w = "mock_world script_missing (script_exits 0) (script_exits 0) ''Podman''"
  let ?c = "sample_config_with_setup"
  let ?R = "run_evaluation runner_without_judge ?w ?c ''openai'' ''gpt-4''"
  let ?w' = "mock_world script_name_too_long (script_exits 0) (script_exits 0) ''Podman''"
  let ?c' = "sample_config_long_setup"
  let ?R' = "run_evaluation runner_without_judge ?w' ?c' ''openai'' ''gpt-4''"
  have s: "eval_setup_script ?c = Some ''setup.sh''" "eval_setup_script ?c' = Some long_name"
    by (simp_all add: sample_config_with_setup_def sample_config_long_setup_def)
  have n: "long_name \<noteq> []"
    by (simp add: long_name_def)
  have t: "truthy (eval_setup_script ?c)" "truthy (eval_setup_script ?c')"
    by (simp_all add: s n)
  have r: "run_script (setup_world ?w) (eval_setup_script ?c) True (kubeconfig runner_without_judge)
           = Inl (ScriptExecutionError ''Script not found: setup.sh'')"
    by (simp add: s run_script_def mock_world_def script_missing_def)
  have r': "run_script (setup_world ?w') (eval_setup_script ?c') True (kubeconfig runner_without_judge)
           = Inl (OSError name_too_long)"
    by (simp add: s run_script_def mock_world_def script_name_too_long_def)
  note a = setup_failure_aborts [OF t(1) r, of "''openai''" "''gpt-4''"]
  note b = setup_failure_aborts [OF t(2) r', of "''openai''" "''gpt-4''"]
  from a have "EvaluationResult.error (fst ?R)
      = Some ''Setup script failed: Script not found: setup.sh''"
      "snd ?R = [RunScript (Some ''setup.sh'')]"
    by (simp_all add: s)
  moreover from b have "EvaluationResult.result (fst ?R') = ''FAILED''"
      "EvaluationResult.error (fst ?R') = Some name_too_long"
      "snd ?R' = [RunScript (Some long_name)]"
    by (simp_all add: s)
  ultimately show ?thesis using r r' by simp
qed

text \<open>
  C1 as the specification states it does not hold: with a missing setup script the
  result is labelled \<^verbatim>\<open>FAILED\<close>, not
  \<^verbatim>\<open>ERROR\<close>.
\<close>

theorem setup_failure_not_ERROR:
  "truthy (eval_setup_script sample_config_with_setup)
   \<and> isl (run_script script_missing (eval_setup_script sample_config_with_setup) True None)
   \<and> EvaluationResult.result (fst (run_evaluation runner_without_judge
          (mock_world script_missing (script_exits 0) (script_exits 0) ''Podman'')
          sample_config_with_setup ''openai'' ''gpt-4''))
     = ''FAILED''
   \<and> EvaluationResult.result (fst (run_evaluation runner_without_judge
          (mock_world script_missing (script_exits 0) (script_exits 0) ''Podman'')
          sample_config_with_setup ''openai'' ''gpt-4''))
     \<noteq> ''ERROR''"
  by (simp add: run_evaluation_def run_evaluation_try_def run_setup_def run_script_def
      mock_world_def script_missing_def runner_without_judge_def failed_result_def
      sample_config_with_setup_def)


subsection \<open>Sub-string evaluation\<close>

lemma str_contains_sublist: "str_contains sub s \<longleftrightarrow> sublist sub s"
  by (induction s) (simp_all add: sublist_Cons_right)

lemma keyword_loop_any:
  "keyword_loop response_lower kws
   \<longleftrightarrow> (\<exists>kw \<in> set kws. sublist (lower kw) response_lower)"
  by (induction kws) (auto simp: str_contains_sublist)

lemma evaluate_substring_any:
  "evaluate_substring data_config resp
   \<longleftrightarrow> (\<exists>kws. expected_key_words data_config = Some kws
              \<and> (\<exists>kw \<in> set kws. sublist (lower kw) (lower resp)))"
  by (auto simp: evaluate_substring_def keyword_loop_any split: option.splits)




subsection \<open>Cleanup failure\<close>

text \<open>
  A cleanup failure that \<^verbatim>\<open>run_script\<close> reports as \<^verbatim>\<open>ScriptExecutionError\<close>
  (every failure but the one of the existence check) leaves the result as the strategy's
  verdict made it.
\<close>

lemma cleanup_script_error_keeps_verdict:
  assumes "script_exists (cleanup_world w) = Inr b"
    and "fst (run_setup self w data_config) = Inr None"
    and "query_agent (agent_post w (eval_query data_config) agent_provider agent_model) = Inr resp"
    and "fst (runner_evaluate_response self w data_config resp) = Inr success"
  shows "fst (run_evaluation self w data_config agent_provider agent_model)
         = verdict_result data_config resp success"
  using assms(2-4) run_cleanup_checked [OF assms(1), of self data_config]
  by (simp add: run_evaluation_fst query_and_evaluate_fst)

text \<open>
  C8 does not hold on the code. The sub-string configuration with a cleanup script whose
  name is too long: the agent's response holds a keyword, the strategy's verdict is
  PASS, and the existence check of the cleanup script raises an \<^verbatim>\<open>OSError\<close> in front
  of the \<^verbatim>\<open>try\<close> block of \<^verbatim>\<open>run_script\<close>; the handler of the cleanup step does not
  catch it, and the result is \<^verbatim>\<open>FAILED\<close> with the text of that error and an empty
  response.
\<close>

theorem cleanup_check_error_replaces_verdict:
  "truthy (eval_cleanup_script sample_config_long_cleanup)
   \<and> run_script script_name_too_long (eval_cleanup_script sample_config_long_cleanup) True None
       = Inl (OSError name_too_long)
   \<and> fst (runner_evaluate_response runner_without_judge
       (mock_world (script_exits 0) (script_exits 0) script_name_too_long
          ''Podman is an open-source container engine'')
       sample_config_long_cleanup ''Podman is an open-source container engine'') = Inr True
   \<and> EvaluationResult.result (fst (run_evaluation runner_without_judge
       (mock_world (script_exits 0) (script_exits 0) script_name_too_long
          ''Podman is an open-source container engine'')
       sample_config_long_cleanup ''openai'' ''gpt-4'')) = ''FAILED''
   \<and> EvaluationResult.error (fst (run_evaluation runner_without_judge
       (mock_world (script_exits 0) (script_exits 0) script_name_too_long
          ''Podman is an open-source container engine'')
       sample_config_long_cleanup ''openai'' ''gpt-4'')) = Some name_too_long
   \<and> EvaluationResult.response (fst (run_evaluation runner_without_judge
       (mock_world (script_exits 0) (script_exits 0) script_name_too_long
          ''Podman is an open-source container engine'')
       sample_config_long_cleanup ''openai'' ''gpt-4'')) = []"
proof -
  let ?resp = "''Podman is an open-source container engine''"
  let ?w = "mock_world (script_exits 0) (script_exits 0) script_name_too_long ?resp"
  let ?c = "sample_config_long_cleanup"
  have n: "long_name \<noteq> []"
    by (simp add: long_name_def)
  have cs: "eval_cleanup_script ?c = Some long_name"
    by (simp add: sample_config_long_cleanup_def)
  have t: "truthy (eval_cleanup_script ?c)"
    by (simp add: cs n)
  have r: "run_script script_name_too_long (eval_cleanup_script ?c) True None
           = Inl (OSError name_too_long)"
    by (simp add: cs run_script_def script_name_too_long_def)
  have su: "fst (run_setup runner_without_judge ?w ?c) = Inr None"
    by (simp add: run_setup_def sample_config_long_cleanup_def sample_config_substring_def)
  have st: "strip ?resp = ?resp"
    by code_simp
  have q: "query_agent (agent_post ?w (eval_query ?c) ''openai'' ''gpt-4'') = Inr ?resp"
    by (simp add: query_agent_def mock_world_def st)
  have lo: "lower ''Podman'' = ''podman''"
      "lower ?resp = ''podman is an open-source container engine''"
    by code_simp+
  have "sublist (lower ''Podman'') (lower ?resp)"
    unfolding lo by (rule prefix_imp_sublist) simp
  then have "evaluate_substring ?c ?resp"
    by (simp add: evaluate_substring_any sample_config_long_cleanup_def
        sample_config_substring_def)
  then have ev: "fst (runner_evaluate_response runner_without_judge ?w ?c ?resp) = Inr True"
    by (simp add: runner_evaluate_response_def sample_config_long_cleanup_def
        sample_config_substring_def)
  have "script_exists (cleanup_world ?w) = Inl (OSError name_too_long)"
    by (simp add: mock_world_def script_name_too_long_def)
  then have cl: "fst (run_cleanup runner_without_judge ?w ?c) = Some (OSError name_too_long)"
    using t by (intro run_cleanup_check_raises) simp_all
  have "fst (run_evaluation runner_without_judge ?w ?c ''openai'' ''gpt-4'')
        = failed_result ?c (exn_str (OSError name_too_long))"
    using su q ev cl by (rule run_evaluation_cleanup_raises)
  then show ?thesis
    using t r ev by (simp add: failed_result_simps)
qed

subsection \<open>Strategies that cannot report an error\<close>

lemma evaluate_judge_llm_no_manager:
  "judge_manager self = None \<Longrightarrow> evaluate_judge_llm self w data_config resp = (Inr False, [])"
  by (simp add: evaluate_judge_llm_def)

text \<open>
  C2 as the specification states it does not hold: a judge-llm evaluation run without
  judge manager, whose
  agent query succeeds, has the verdict \<^verbatim>\<open>FAIL\<close>.
\<close>

theorem judge_llm_without_manager_is_FAIL:
  "judge_manager runner_without_judge = None
   \<and> EvaluationDataConfig.eval_type sample_config_judge_llm = ''judge-llm''
   \<and> EvaluationResult.result (fst (run_evaluation runner_without_judge
         (mock_world (script_exits 0) (script_exits 0) (script_exits 0) ''It extends OpenShift'')
         sample_config_judge_llm ''openai'' ''gpt-4'')) = ''FAIL''"
proof -
  let ?w = "mock_world (script_exits 0) (script_exits 0) (script_exits 0) ''It extends OpenShift''"
  have st: "strip ''It extends OpenShift'' = ''It extends OpenShift''"
    by code_simp
  have su: "fst (run_setup runner_without_judge ?w sample_config_judge_llm) = Inr None"
    by (simp add: run_setup_def sample_config_judge_llm_def)
  have cl: "fst (run_cleanup runner_without_judge ?w sample_config_judge_llm) = None"
    by (simp add: run_cleanup_def sample_config_judge_llm_def)
  have q: "query_agent (agent_post ?w (eval_query sample_config_judge_llm) ''openai'' ''gpt-4'')
           = Inr ''It extends OpenShift''"
    by (simp add: query_agent_def mock_world_def st)
  have ev: "runner_evaluate_response runner_without_judge ?w sample_config_judge_llm
              ''It extends OpenShift'' = (Inr False, [])"
    by (simp add: runner_evaluate_response_def sample_config_judge_llm_def
        evaluate_judge_llm_def runner_without_judge_def)
  show ?thesis
    by (simp add: run_evaluation_verdict [OF su q ev cl] verdict_result_simps)
      (simp add: runner_without_judge_def sample_config_judge_llm_def)
qed

text \<open>
  C2, as the code has it. For every judge-llm configuration run without judge manager,
  the verdict is never PASS and no request is made to a judge model; when the setup
  step, the agent query and the cleanup step go through, the result is FAIL with no
  error set.
\<close>

theorem judge_llm_without_manager:
  assumes "EvaluationDataConfig.eval_type data_config = ''judge-llm''"
    and "judge_manager self = None"
  shows "EvaluationResult.result (fst (run_evaluation self w data_config agent_provider agent_model))
           \<noteq> ''PASS''
    \<and> (\<forall>m p. Completion m p
          \<notin> set (snd (run_evaluation self w data_config agent_provider agent_model)))
    \<and> (fst (run_setup self w data_config) = Inr None
        \<and> query_agent (agent_post w (eval_query data_config) agent_provider agent_model) = Inr resp
        \<and> fst (run_cleanup self w data_config) = None
        \<longrightarrow> EvaluationResult.result (fst (run_evaluation self w data_config agent_provider agent_model))
              = ''FAIL''
            \<and> EvaluationResult.error (fst (run_evaluation self w data_config agent_provider agent_model))
              = None)"
proof -
  have strategy: "runner_evaluate_response self w data_config r = (Inr False, [])" for r
    using assms by (simp add: runner_evaluate_response_def evaluate_judge_llm_no_manager)
  have never: "EvaluationResult.result (fst (run_evaluation self w data_config agent_provider agent_model))
           \<noteq> ''PASS''"
  proof (cases rule: run_evaluation_result_cases [of self w data_config agent_provider agent_model])
    case (failed msg)
    then show ?thesis by (simp add: failed_result_simps)
  next
    case (verdict r success)
    with strategy [of r] show ?thesis by (simp add: verdict_result_simps)
  qed
  have quiet: "Completion m p \<notin> set (snd (run_evaluation self w data_config agent_provider agent_model))"
    for m p
  proof
    assume "Completion m p \<in> set (snd (run_evaluation self w data_config agent_provider agent_model))"
    then have "Completion m p \<in> set (snd (run_setup self w data_config))
        \<or> Completion m p
            \<in> set (snd (query_and_evaluate self w data_config agent_provider agent_model))"
      using run_evaluation_snd [of self w data_config agent_provider agent_model] by auto
    then show False
    proof
      assume "Completion m p \<in> set (snd (run_setup self w data_config))"
      then show False
        using run_setup_events [of self w data_config] by auto
    next
      assume "Completion m p
          \<in> set (snd (query_and_evaluate self w data_config agent_provider agent_model))"
      then show False
        using query_and_evaluate_snd [of self w data_config agent_provider agent_model]
        by (auto simp: strategy run_cleanup_events split: if_splits)
    qed
  qed
  have fail: "EvaluationResult.result (fst (run_evaluation self w data_config agent_provider agent_model))
              = ''FAIL''
            \<and> EvaluationResult.error (fst (run_evaluation self w data_config agent_provider agent_model))
              = None"
    if "fst (run_setup self w data_config) = Inr None
        \<and> query_agent (agent_post w (eval_query data_config) agent_provider agent_model) = Inr resp
        \<and> fst (run_cleanup self w data_config) = None"
  proof -
    from that have "run_evaluation self w data_config agent_provider agent_model
         = (verdict_result data_config resp False,
            snd (run_setup self w data_config)
            @ QueryAgent (eval_query data_config) agent_provider agent_model # []
            @ snd (run_cleanup self w data_config))"
      using run_evaluation_verdict [OF _ _ strategy] by blast
    then show ?thesis by (simp add: verdict_result_simps)
  qed
  from never quiet fail show ?thesis by blast
qed

theorem judge_llm_without_manager_witness:
  "fst (run_setup runner_without_judge
         (mock_world (script_exits 0) (script_exits 0) (script_exits 0) ''It extends OpenShift'')
         (sample_config_judge_llm\<lparr>eval_setup_script := Some ''setup.sh''\<rparr>)) = Inr None
   \<and> EvaluationResult.result (fst (run_evaluation runner_without_judge
         (mock_world (script_exits 0) (script_exits 0) (script_exits 0) ''It extends OpenShift'')
         (sample_config_judge_llm\<lparr>eval_setup_script := Some ''setup.sh''\<rparr>) ''openai'' ''gpt-4''))
       = ''FAIL''
   \<and> EvaluationResult.error (fst (run_evaluation runner_without_judge
         (mock_world (script_exits 0) (script_exits 0) (script_exits 0) ''It extends OpenShift'')
         (sample_config_judge_llm\<lparr>eval_setup_script := Some ''setup.sh''\<rparr>) ''openai'' ''gpt-4''))
       = None
   \<and> Completion ''gpt-4'' ''Is it right?''
       \<notin> set (snd (run_evaluation runner_without_judge
         (mock_world (script_exits 0) (script_exits 0) (script_exits 0) ''It extends OpenShift'')
         (sample_config_judge_llm\<lparr>eval_setup_script := Some ''setup.sh''\<rparr>) ''openai'' ''gpt-4''))"
proof -
  let ?w = "mock_world (script_exits 0) (script_exits 0) (script_exits 0) ''It extends OpenShift''"
  let ?c = "sample_config_judge_llm\<lparr>eval_setup_script := Some ''setup.sh''\<rparr>"
  have ty: "EvaluationDataConfig.eval_type ?c = ''judge-llm''"
    by (simp add: sample_config_judge_llm_def)
  have jm: "judge_manager runner_without_judge = None"
    by (simp add: runner_without_judge_def)
  have st: "strip ''It extends OpenShift'' = ''It extends OpenShift''"
    by code_simp
  have su: "fst (run_setup runner_without_judge ?w ?c) = Inr None"
    by (simp add: run_setup_def run_script_def run_script_try_def mock_world_def script_exits_def
        runner_without_judge_def)
  have cl: "fst (run_cleanup runner_without_judge ?w ?c) = None"
    by (simp add: run_cleanup_def sample_config_judge_llm_def)
  have q: "query_agent (agent_post ?w (eval_query ?c) ''openai'' ''gpt-4'')
           = Inr ''It extends OpenShift''"
    by (simp add: query_agent_def mock_world_def st)
  from judge_llm_without_manager [OF ty jm, where w = ?w and agent_provider = "''openai''"
      and agent_model = "''gpt-4''" and resp = "''It extends OpenShift''"] su q cl
  show ?thesis by blast
qed


lemma evaluate_script_cases:
  "evaluate_script self w data_config
   = (case run_script (verify_world w) (eval_verify_script data_config) False (kubeconfig self) of
        Inr r \<Rightarrow> Inr (returncode r = 0)
      | Inl (ScriptExecutionError m) \<Rightarrow> Inr False
      | Inl e \<Rightarrow> Inl e,
      [RunScript (eval_verify_script data_config)])"
  by (simp add: evaluate_script_def split: sum.splits exn.splits)

text \<open>
  C6 as the specification states it does not hold: a script evaluation whose verify
  script is missing has
  the verdict \<^verbatim>\<open>FAIL\<close> and carries no error message.
\<close>

theorem script_executor_failure_is_FAIL:
  "run_script script_missing (Some ''verify.sh'') False None
     = Inl (ScriptExecutionError ''Script not found: verify.sh'')
   \<and> EvaluationResult.result (fst (run_evaluation runner_without_judge
         (mock_world (script_exits 0) script_missing (script_exits 0) ''nginx is deployed'')
         sample_config_script ''openai'' ''gpt-4'')) = ''FAIL''
   \<and> EvaluationResult.error (fst (run_evaluation runner_without_judge
         (mock_world (script_exits 0) script_missing (script_exits 0) ''nginx is deployed'')
         sample_config_script ''openai'' ''gpt-4'')) = None"
proof -
  let ?w = "mock_world (script_exits 0) script_missing (script_exits 0) ''nginx is deployed''"
  have st: "strip ''nginx is deployed'' = ''nginx is deployed''"
    by code_simp
  have su: "fst (run_setup runner_without_judge ?w sample_config_script) = Inr None"
    by (simp add: run_setup_def sample_config_script_def)
  have cl: "fst (run_cleanup runner_without_judge ?w sample_config_script) = None"
    by (simp add: run_cleanup_def sample_config_script_def)
  have q: "query_agent (agent_post ?w (eval_query sample_config_script) ''openai'' ''gpt-4'')
           = Inr ''nginx is deployed''"
    by (simp add: query_agent_def mock_world_def st)
  have rs: "run_script script_missing (Some ''verify.sh'') False None
            = Inl (ScriptExecutionError ''Script not found: verify.sh'')"
    by (simp add: run_script_def script_missing_def)
  have ev: "runner_evaluate_response runner_without_judge ?w sample_config_script
              ''nginx is deployed'' = (Inr False, [RunScript (Some ''verify.sh'')])"
    by (simp add: runner_evaluate_response_def evaluate_script_cases sample_config_script_def
        mock_world_def runner_without_judge_def rs)
  show ?thesis
    by (simp add: run_evaluation_verdict [OF su q ev cl] verdict_result_simps rs)
qed

text \<open>
  C6, as the code has it. For every script configuration, the strategy's verdict is
  PASS if and only if the verify script ran and its exit code is 0; with a nonzero exit
  code it is FAIL; and a failure of the script runner raised as
  \<^verbatim>\<open>ScriptExecutionError\<close>, such as a missing script file, is caught by the strategy and
  is FAIL as well. In an evaluation whose setup step, agent query and cleanup step go
  through, this verdict is the result, with no error set.
\<close>

theorem script_verdict:
  assumes "EvaluationDataConfig.eval_type data_config = ''script''"
  shows "(fst (runner_evaluate_response self w data_config resp) = Inr True
          \<longleftrightarrow> (\<exists>r. run_script (verify_world w) (eval_verify_script data_config) False
                        (kubeconfig self) = Inr r
                    \<and> returncode r = 0))
    \<and> (\<forall>r. run_script (verify_world w) (eval_verify_script data_config) False (kubeconfig self)
               = Inr r
             \<and> returncode r \<noteq> 0
          \<longrightarrow> fst (runner_evaluate_response self w data_config resp) = Inr False)
    \<and> (\<forall>m. run_script (verify_world w) (eval_verify_script data_config) False (kubeconfig self)
               = Inl (ScriptExecutionError m)
          \<longrightarrow> fst (runner_evaluate_response self w data_config resp) = Inr False)
    \<and> (fst (run_setup self w data_config) = Inr None
        \<and> query_agent (agent_post w (eval_query data_config) agent_provider agent_model) = Inr resp
        \<and> fst (run_cleanup self w data_config) = None
        \<longrightarrow>
          (EvaluationResult.result (fst (run_evaluation self w data_config agent_provider agent_model))
              = ''PASS''
            \<longleftrightarrow> (\<exists>r. run_script (verify_world w) (eval_verify_script data_config) False
                          (kubeconfig self) = Inr r
                      \<and> returncode r = 0))
          \<and> (\<forall>r. run_script (verify_world w) (eval_verify_script data_config) False
                     (kubeconfig self) = Inr r
                   \<and> returncode r \<noteq> 0
                \<longrightarrow> EvaluationResult.result
                      (fst (run_evaluation self w data_config agent_provider agent_model)) = ''FAIL''
                    \<and> EvaluationResult.error
                      (fst (run_evaluation self w data_config agent_provider agent_model)) = None)
          \<and> (\<forall>m. run_script (verify_world w) (eval_verify_script data_config) False
                     (kubeconfig self) = Inl (ScriptExecutionError m)
                \<longrightarrow> EvaluationResult.result
                      (fst (run_evaluation self w data_config agent_provider agent_model)) = ''FAIL''
                    \<and> EvaluationResult.error
                      (fst (run_evaluation self w data_config agent_provider agent_model)) = None))"
proof -
  let ?run = "run_script (verify_world w) (eval_verify_script data_config) False (kubeconfig self)"
  let ?S = "fst (runner_evaluate_response self w data_config resp)"
  let ?R = "fst (run_evaluation self w data_config agent_provider agent_model)"
  have strategy: "runner_evaluate_response self w data_config resp = evaluate_script self w data_config"
    using assms by (simp add: runner_evaluate_response_def)
  have ran: "?S = Inr (returncode r = 0)" if "?run = Inr r" for r
    using that by (simp add: strategy evaluate_script_cases)
  have caught: "?S = Inr False" if "?run = Inl (ScriptExecutionError m)" for m
    using that by (simp add: strategy evaluate_script_cases)
  have raised: "?S = Inl e" if "?run = Inl e" "\<forall>m. e \<noteq> ScriptExecutionError m" for e
    using that by (cases e) (simp_all add: strategy evaluate_script_cases)
  have pass: "?S = Inr True \<longleftrightarrow> (\<exists>r. ?run = Inr r \<and> returncode r = 0)"
  proof (cases ?run)
    case (Inr r)
    with ran [OF Inr] show ?thesis by simp
  next
    case (Inl e)
    show ?thesis
    proof (cases "\<exists>m. e = ScriptExecutionError m")
      case True
      with Inl caught show ?thesis by auto
    next
      case False
      with Inl raised [of e] show ?thesis by simp
    qed
  qed
  have run: "(EvaluationResult.result ?R = ''PASS'' \<longleftrightarrow> (\<exists>r. ?run = Inr r \<and> returncode r = 0))
      \<and> (\<forall>r. ?run = Inr r \<and> returncode r \<noteq> 0
            \<longrightarrow> EvaluationResult.result ?R = ''FAIL'' \<and> EvaluationResult.error ?R = None)
      \<and> (\<forall>m. ?run = Inl (ScriptExecutionError m)
            \<longrightarrow> EvaluationResult.result ?R = ''FAIL'' \<and> EvaluationResult.error ?R = None)"
    if h: "fst (run_setup self w data_config) = Inr None
        \<and> query_agent (agent_post w (eval_query data_config) agent_provider agent_model) = Inr resp
        \<and> fst (run_cleanup self w data_config) = None"
  proof -
    have verdict: "?R = verdict_result data_config resp success" if "?S = Inr success" for success
      using that h by (simp add: run_evaluation_fst query_and_evaluate_fst)
    have failed: "?R = failed_result data_config (exn_str e)" if "?S = Inl e" for e
      using that h by (simp add: run_evaluation_fst query_and_evaluate_fst)
    have "EvaluationResult.result ?R = ''PASS'' \<longleftrightarrow> ?S = Inr True"
    proof (cases ?S)
      case (Inl e)
      with failed show ?thesis by (simp add: failed_result_simps)
    next
      case (Inr success)
      with verdict show ?thesis by (simp add: verdict_result_simps)
    qed
    with pass have "EvaluationResult.result ?R = ''PASS'' \<longleftrightarrow> (\<exists>r. ?run = Inr r \<and> returncode r = 0)"
      by simp
    moreover have "EvaluationResult.result ?R = ''FAIL'' \<and> EvaluationResult.error ?R = None"
      if "?run = Inr r \<and> returncode r \<noteq> 0" for r
      using that ran [of r] verdict [of False] by (simp add: verdict_result_simps)
    moreover have "EvaluationResult.result ?R = ''FAIL'' \<and> EvaluationResult.error ?R = None"
      if "?run = Inl (ScriptExecutionError m)" for m
      using that caught [of m] verdict [of False] by (simp add: verdict_result_simps)
    ultimately show ?thesis by blast
  qed
  have nonzero: "?S = Inr False" if "?run = Inr r \<and> returncode r \<noteq> 0" for r
    using that ran [of r] by simp
  from pass nonzero caught run show ?thesis by blast
qed

theorem script_verdict_witness:
  "EvaluationResult.result (fst (run_evaluation runner_without_judge
       (mock_world (script_exits 0) (script_exits 0) (script_exits 0) ''nginx is deployed'')
       sample_config_script ''openai'' ''gpt-4'')) = ''PASS''
   \<and> EvaluationResult.result (fst (run_evaluation runner_without_judge
       (mock_world (script_exits 0) (script_exits 3) (script_exits 0) ''nginx is deployed'')
       sample_config_script ''openai'' ''gpt-4'')) = ''FAIL''
   \<and> fst (runner_evaluate_response runner_without_judge
       (mock_world (script_exits 0) script_missing (script_exits 0) ''nginx is deployed'')
       sample_config_script ''nginx is deployed'') = Inr False"
proof -
  let ?w = "\<lambda>code. mock_world (script_exits 0) (script_exits code) (script_exits 0) ''nginx is deployed''"
  let ?m = "mock_world (script_exits 0) script_missing (script_exits 0) ''nginx is deployed''"
  have ty: "EvaluationDataConfig.eval_type sample_config_script = ''script''"
    by (simp add: sample_config_script_def)
  have st: "strip ''nginx is deployed'' = ''nginx is deployed''"
    by code_simp
  have su: "fst (run_setup runner_without_judge (?w code) sample_config_script) = Inr None" for code
    by (simp add: run_setup_def sample_config_script_def)
  have cl: "fst (run_cleanup runner_without_judge (?w code) sample_config_script) = None" for code
    by (simp add: run_cleanup_def sample_config_script_def)
  have q: "query_agent (agent_post (?w code) (eval_query sample_config_script) ''openai'' ''gpt-4'')
           = Inr ''nginx is deployed''" for code
    by (simp add: query_agent_def mock_world_def st)
  have rs: "run_script (verify_world (?w code)) (eval_verify_script sample_config_script) False
              (kubeconfig runner_without_judge)
            = Inr \<lparr>returncode = code, stdout = [], stderr = []\<rparr>" for code
    by (simp add: run_script_def run_script_try_def mock_world_def script_exits_def
        sample_config_script_def runner_without_judge_def)
  have rm: "run_script (verify_world ?m) (eval_verify_script sample_config_script) False
              (kubeconfig runner_without_judge)
            = Inl (ScriptExecutionError ''Script not found: verify.sh'')"
    by (simp add: run_script_def mock_world_def script_missing_def sample_config_script_def)
  note a = script_verdict [OF ty, where self = runner_without_judge and w = "?w 0"
      and resp = "''nginx is deployed''" and agent_provider = "''openai''"
      and agent_model = "''gpt-4''"]
  note b = script_verdict [OF ty, where self = runner_without_judge and w = "?w 3"
      and resp = "''nginx is deployed''" and agent_provider = "''openai''"
      and agent_model = "''gpt-4''"]
  note c = script_verdict [OF ty, where self = runner_without_judge and w = ?m
      and resp = "''nginx is deployed''" and agent_provider = "''openai''"
      and agent_model = "''gpt-4''"]
  have "EvaluationResult.result (fst (run_evaluation runner_without_judge (?w 0)
          sample_config_script ''openai'' ''gpt-4'')) = ''PASS''"
    using a su [of 0] q [of 0] cl [of 0] rs [of 0] by simp
  moreover have "EvaluationResult.result (fst (run_evaluation runner_without_judge (?w 3)
          sample_config_script ''openai'' ''gpt-4'')) = ''FAIL''"
    using b su [of 3] q [of 3] cl [of 3] rs [of 3] by simp
  moreover have "fst (runner_evaluate_response runner_without_judge ?m sample_config_script
          ''nginx is deployed'') = Inr False"
    using c rm by blast
  ultimately show ?thesis by blast
qed

subsection \<open>The success rate is computed without an exception\<close>

lemma pow2_pos: "0 < pow2 e"
  by (simp add: pow2_def)

lemma pow2_le_one: "e \<le> 0 \<Longrightarrow> pow2 e \<le> 1"
  by (simp add: pow2_def)

lemma round_half_even_le: "of_int (round_half_even q) \<le> q + 1"
proof -
  have "round_half_even q \<le> \<lfloor>q\<rfloor> + 1"
    by (simp add: round_half_even_def Let_def)
  then have "(of_int (round_half_even q) :: rat) \<le> of_int (\<lfloor>q\<rfloor> + 1)"
    by (simp only: of_int_le_iff)
  also have "\<dots> \<le> q + 1"
    by simp
  finally show ?thesis .
qed

lemma floor_log2_unit: "q \<le> 1 \<Longrightarrow> floor_log2 q \<le> 0"
  by (auto simp: floor_log2_def bitlen_def floorlog_def)

lemma float_of_rat_unit:
  assumes "0 \<le> q" "q \<le> 1"
  shows "\<exists>v. float_of_rat q = Finite v"
proof (cases "q = 0")
  case True
  then show ?thesis by (simp add: float_of_rat_def)
next
  case False
  define e where "e = max (floor_log2 \<bar>q\<bar> - 52) (- 1074)"
  define v where "v = of_int (round_half_even (\<bar>q\<bar> / pow2 e)) * pow2 e"
  have "e \<le> 0"
    using floor_log2_unit [of "\<bar>q\<bar>"] assms by (simp add: e_def)
  then have p: "pow2 e \<le> 1" by (rule pow2_le_one)
  have "v \<le> (\<bar>q\<bar> / pow2 e + 1) * pow2 e"
    unfolding v_def using round_half_even_le pow2_pos [of e]
    by (intro mult_right_mono) (simp_all add: less_imp_le)
  also have "\<dots> = \<bar>q\<bar> + pow2 e"
    using pow2_pos [of e] by (simp add: field_simps)
  also have "\<dots> \<le> 2"
    using assms p by simp
  finally have "v \<le> 2" .
  moreover have "(2::rat) < pow2 1024"
  proof -
    have "(2::rat) ^ 1 < 2 ^ 1024"
      by (rule power_strict_increasing) simp_all
    then show ?thesis by (simp add: pow2_def)
  qed
  ultimately have "\<not> pow2 1024 \<le> v" by simp
  then show ?thesis
    using False by (simp add: float_of_rat_def Let_def e_def [symmetric] v_def [symmetric])
qed

lemma int_truediv_fraction:
  assumes "0 \<le> a" "a \<le> b" "0 < b"
  shows "\<exists>q. int_truediv a b = Inr q"
proof -
  have "0 \<le> (of_int a / of_int b :: rat)" "(of_int a / of_int b :: rat) \<le> 1"
    using assms by simp_all
  then obtain v where "float_of_rat (of_int a / of_int b) = Finite v"
    using float_of_rat_unit by blast
  with assms show ?thesis
    by (simp add: int_truediv_def)
qed


subsection \<open>Statistics by category\<close>

lemma count_result_fields:
  "passed (count_result v x) = passed x + (if v = ''PASS'' then 1 else 0)"
  "failed (count_result v x) = failed x + (if v = ''FAIL'' then 1 else 0)"
  "errored (count_result v x) = errored x + (if v = ''ERROR'' then 1 else 0)"
  by (simp_all add: count_result_def)

text \<open>One turn of the first loop stores the counted result under the category's key.\<close>

lemma count_loop_step:
  "count_loop key (r # rs) acc
   = count_loop key rs
       (AList.update (key r)
          (count_result (Lsc_EvaluationResult.result r)
             (case map_of acc (key r) of
                None \<Rightarrow> \<lparr>passed = 0, failed = 0, errored = 0\<rparr>
              | Some x \<Rightarrow> x))
          acc)"
  by (cases "map_of acc (key r)") (simp_all add: Let_def update_conv')

lemma count_loop_distinct:
  "distinct (map fst acc) \<Longrightarrow> distinct (map fst (count_loop key rs acc))"
proof (induction rs arbitrary: acc)
  case Nil
  then show ?case by simp
next
  case (Cons r rs)
  show ?case
    unfolding count_loop_step by (rule Cons.IH) (rule distinct_update [OF Cons.prems])
qed

lemma count_loop_map_of:
  "map_of (count_loop key rs acc) c
   = (if map_of acc c = None \<and> c \<notin> key ` set rs then None
      else
        (let x = (case map_of acc c of
                    None \<Rightarrow> \<lparr>passed = 0, failed = 0, errored = 0\<rparr>
                  | Some x \<Rightarrow> x)
         in Some \<lparr>passed = passed x
                     + int (length (filter (\<lambda>r. key r = c \<and> Lsc_EvaluationResult.result r = ''PASS'') rs)),
                   failed = failed x
                     + int (length (filter (\<lambda>r. key r = c \<and> Lsc_EvaluationResult.result r = ''FAIL'') rs)),
                   errored = errored x
                     + int (length (filter (\<lambda>r. key r = c \<and> Lsc_EvaluationResult.result r = ''ERROR'') rs))\<rparr>))"
proof (induction rs arbitrary: acc)
  case Nil
  then show ?case by (cases "map_of acc c") simp_all
next
  case (Cons r rs)
  show ?case
  proof (cases "key r = c")
    case True
    then show ?thesis
      unfolding count_loop_step Cons.IH
      by (cases "map_of acc c") (simp_all add: update_conv' Let_def count_result_fields)
  next
    case False
    then show ?thesis
      unfolding count_loop_step Cons.IH
      by (cases "map_of acc c") (simp_all add: update_conv' Let_def)
  qed
qed

text \<open>What the second loop makes of one inner dictionary whose counts are not negative.\<close>

lemma add_success_rate_ok:
  assumes "0 \<le> passed x" "0 \<le> failed x" "0 \<le> errored x"
  shows "\<exists>st. add_success_rate x = Inr st
     \<and> passed st = passed x \<and> failed st = failed x \<and> errored st = errored x
     \<and> category_stats.total st = passed x + failed x + errored x
     \<and> (0 < category_stats.total st \<longrightarrow>
          (\<exists>q. int_truediv (passed st) (category_stats.total st) = Inr q
               \<and> success_rate st = py_round (float_mul q (Finite 100)) 2))
     \<and> (category_stats.total st = 0 \<longrightarrow> success_rate st = Finite 0)"
proof (cases "0 < passed x + failed x + errored x")
  case True
  with assms obtain q where "int_truediv (passed x) (passed x + failed x + errored x) = Inr q"
    using int_truediv_fraction [of "passed x" "passed x + failed x + errored x"] by auto
  with True show ?thesis
    by (simp add: add_success_rate_def Let_def)
next
  case False
  with assms have "passed x + failed x + errored x = 0" by simp
  then show ?thesis
    by (simp add: add_success_rate_def Let_def)
qed

lemma rate_loop_ok:
  assumes "\<forall>(c, x) \<in> set al. 0 \<le> passed x \<and> 0 \<le> failed x \<and> 0 \<le> errored x"
  shows "\<exists>sts. rate_loop al = Inr sts
     \<and> map fst sts = map fst al
     \<and> (\<forall>(c, st) \<in> set sts. \<exists>x. (c, x) \<in> set al \<and> add_success_rate x = Inr st)"
  using assms
proof (induction al)
  case Nil
  then show ?case by simp
next
  case (Cons p al)
  obtain c x where p: "p = (c, x)" by (cases p)
  with Cons.prems have "0 \<le> passed x" "0 \<le> failed x" "0 \<le> errored x" by simp_all
  then obtain st where st: "add_success_rate x = Inr st"
    using add_success_rate_ok by blast
  from Cons obtain sts where sts: "rate_loop al = Inr sts" "map fst sts = map fst al"
      "\<forall>(c, st) \<in> set sts. \<exists>x. (c, x) \<in> set al \<and> add_success_rate x = Inr st"
    by auto
  have "rate_loop (p # al) = Inr ((c, st) # sts)"
    by (simp add: p st sts(1))
  moreover have "map fst ((c, st) # sts) = map fst (p # al)"
    by (simp add: p sts(2))
  moreover have "\<forall>(c', st') \<in> set ((c, st) # sts).
      \<exists>x'. (c', x') \<in> set (p # al) \<and> add_success_rate x' = Inr st'"
    using sts(3) st p by auto
  ultimately show ?case by blast
qed

text \<open>
  C7. For every list of results and every key extractor, the aggregator returns (it
  raises nothing, so it never divides by zero) one entry per category that occurs, and
  in each entry \<^verbatim>\<open>passed\<close>, \<^verbatim>\<open>failed\<close> and \<^verbatim>\<open>errored\<close> count the results of
  that category with the verdicts PASS, FAIL and ERROR, \<^verbatim>\<open>total\<close> is their sum, and
  \<^verbatim>\<open>success_rate\<close> is \<^verbatim>\<open>round(passed / total * 100, 2)\<close> when the total is positive
  and 0.0 when the total is 0.
\<close>

theorem stats_by_category:
  "\<exists>stats. calculate_stats_by_category results key = Inr stats
     \<and> distinct (map fst stats)
     \<and> fst ` set stats = key ` set results
     \<and> (\<forall>(c, st) \<in> set stats.
           passed st = int (length (filter
               (\<lambda>r. key r = c \<and> Lsc_EvaluationResult.result r = ''PASS'') results))
         \<and> failed st = int (length (filter
               (\<lambda>r. key r = c \<and> Lsc_EvaluationResult.result r = ''FAIL'') results))
         \<and> errored st = int (length (filter
               (\<lambda>r. key r = c \<and> Lsc_EvaluationResult.result r = ''ERROR'') results))
         \<and> category_stats.total st = passed st + failed st + errored st
         \<and> (0 < category_stats.total st \<longrightarrow>
              (\<exists>q. int_truediv (passed st) (category_stats.total st) = Inr q
                   \<and> success_rate st = py_round (float_mul q (Finite 100)) 2))
         \<and> (category_stats.total st = 0 \<longrightarrow> success_rate st = Finite 0))"
proof -
  define al where "al = count_loop key results []"
  have d: "distinct (map fst al)"
    unfolding al_def by (rule count_loop_distinct) simp
  have m: "map_of al c
      = (if c \<notin> key ` set results then None
         else Some \<lparr>passed = int (length (filter
                        (\<lambda>r. key r = c \<and> Lsc_EvaluationResult.result r = ''PASS'') results)),
                    failed = int (length (filter
                        (\<lambda>r. key r = c \<and> Lsc_EvaluationResult.result r = ''FAIL'') results)),
                    errored = int (length (filter
                        (\<lambda>r. key r = c \<and> Lsc_EvaluationResult.result r = ''ERROR'') results))\<rparr>)"
    for c
    unfolding al_def count_loop_map_of by simp
  have entry: "c \<in> key ` set results
      \<and> passed x = int (length (filter
            (\<lambda>r. key r = c \<and> Lsc_EvaluationResult.result r = ''PASS'') results))
      \<and> failed x = int (length (filter
            (\<lambda>r. key r = c \<and> Lsc_EvaluationResult.result r = ''FAIL'') results))
      \<and> errored x = int (length (filter
            (\<lambda>r. key r = c \<and> Lsc_EvaluationResult.result r = ''ERROR'') results))"
    if "(c, x) \<in> set al" for c x
  proof -
    from that d have "map_of al c = Some x" by simp
    with m [of c] show ?thesis by (auto split: if_splits)
  qed
  have keys: "fst ` set al = key ` set results"
  proof -
    have "fst ` set al = dom (map_of al)" by (simp add: dom_map_of_conv_image_fst)
    also have "\<dots> = key ` set results" by (auto simp: dom_def m)
    finally show ?thesis .
  qed
  have "\<forall>(c, x) \<in> set al. 0 \<le> passed x \<and> 0 \<le> failed x \<and> 0 \<le> errored x"
    using entry by auto
  then obtain sts where sts: "rate_loop al = Inr sts" "map fst sts = map fst al"
      "\<forall>(c, st) \<in> set sts. \<exists>x. (c, x) \<in> set al \<and> add_success_rate x = Inr st"
    using rate_loop_ok by blast
  have "calculate_stats_by_category results key = Inr sts"
    by (simp add: calculate_stats_by_category_def al_def [symmetric] sts(1))
  moreover have "distinct (map fst sts)"
    using d sts(2) by simp
  moreover have "fst ` set sts = key ` set results"
    using keys sts(2) by (metis list.set_map)
  moreover have "passed st = int (length (filter
               (\<lambda>r. key r = c \<and> Lsc_EvaluationResult.result r = ''PASS'') results))
         \<and> failed st = int (length (filter
               (\<lambda>r. key r = c \<and> Lsc_EvaluationResult.result r = ''FAIL'') results))
         \<and> errored st = int (length (filter
               (\<lambda>r. key r = c \<and> Lsc_EvaluationResult.result r = ''ERROR'') results))
         \<and> category_stats.total st = passed st + failed st + errored st
         \<and> (0 < category_stats.total st \<longrightarrow>
              (\<exists>q. int_truediv (passed st) (category_stats.total st) = Inr q
                   \<and> success_rate st = py_round (float_mul q (Finite 100)) 2))
         \<and> (category_stats.total st = 0 \<longrightarrow> success_rate st = Finite 0)"
    if "(c, st) \<in> set sts" for c st
  proof -
    from that sts(3) obtain x where x: "(c, x) \<in> set al" "add_success_rate x = Inr st"
      by auto
    note e = entry [OF x(1)]
    then have "0 \<le> passed x" "0 \<le> failed x" "0 \<le> errored x" by simp_all
    from add_success_rate_ok [OF this] x(2) e show ?thesis by auto
  qed
  ultimately show ?thesis by blast
qed


lemma floor_log2_values: "floor_log2 (1 / 2) = - 1" "floor_log2 50 = 5"
  by code_simp+

lemma float_of_rat_values: "float_of_rat (1 / 2) = Finite (1 / 2)" "float_of_rat 50 = Finite 50"
  by (simp_all add: float_of_rat_def floor_log2_values pow2_def round_half_even_def Let_def)

theorem stats_by_category_witness:
  "\<exists>stats st. calculate_stats_by_category sample_results Lsc_EvaluationResult.eval_type = Inr stats
     \<and> (''script'', st) \<in> set stats
     \<and> passed st = 1 \<and> failed st = 0 \<and> errored st = 1
     \<and> category_stats.total st = 2
     \<and> success_rate st = Finite 50"
proof -
  from stats_by_category [of sample_results Lsc_EvaluationResult.eval_type]
  obtain stats where stats:
    "calculate_stats_by_category sample_results Lsc_EvaluationResult.eval_type = Inr stats"
    "fst ` set stats = Lsc_EvaluationResult.eval_type ` set sample_results"
    "\<forall>(c, st) \<in> set stats.
           passed st = int (length (filter
               (\<lambda>r. Lsc_EvaluationResult.eval_type r = c
                    \<and> Lsc_EvaluationResult.result r = ''PASS'') sample_results))
         \<and> failed st = int (length (filter
               (\<lambda>r. Lsc_EvaluationResult.eval_type r = c
                    \<and> Lsc_EvaluationResult.result r = ''FAIL'') sample_results))
         \<and> errored st = int (length (filter
               (\<lambda>r. Lsc_EvaluationResult.eval_type r = c
                    \<and> Lsc_EvaluationResult.result r = ''ERROR'') sample_results))
         \<and> category_stats.total st = passed st + failed st + errored st
         \<and> (0 < category_stats.total st \<longrightarrow>
              (\<exists>q. int_truediv (passed st) (category_stats.total st) = Inr q
                   \<and> success_rate st = py_round (float_mul q (Finite 100)) 2))
         \<and> (category_stats.total st = 0 \<longrightarrow> success_rate st = Finite 0)"
    by blast
  have "''script'' \<in> Lsc_EvaluationResult.eval_type ` set sample_results"
    by (simp add: sample_results_def)
  with stats(2) obtain st where st: "(''script'', st) \<in> set stats"
    by force
  with stats(3) have counts: "passed st = 1" "failed st = 0" "errored st = 1"
      "category_stats.total st = passed st + failed st + errored st"
      "0 < category_stats.total st \<longrightarrow>
         (\<exists>q. int_truediv (passed st) (category_stats.total st) = Inr q
              \<and> success_rate st = py_round (float_mul q (Finite 100)) 2)"
    by (auto simp: sample_results_def)
  then have t: "category_stats.total st = 2"
    by simp
  have "int_truediv 1 2 = Inr (Finite (1 / 2))"
    by (simp add: int_truediv_def float_of_rat_values)
  with counts(5) have "success_rate st = py_round (float_mul (Finite (1 / 2)) (Finite 100)) 2"
    by (simp add: counts(1) t)
  also have "\<dots> = Finite 50"
    by (simp add: py_round_def float_mul_def float_of_rat_values round_half_even_def)
  finally have "success_rate st = Finite 50" .
  with stats(1) st counts(1-3) t show ?thesis by blast
qed

end
